theory Spec2Isabelle
  imports Main
begin

section \<open>Shared notions\<close>

text \<open>
  A Go \<^verbatim>\<open>error\<close> value. \<open>LibError\<close> is an error produced by a library call
  (netlink, ns, grpc), identified by its message; \<open>Errorf\<close> is
  \<^verbatim>\<open>fmt.Errorf("<msg>: %w", err)\<close>, which keeps the wrapped error.
  \<open>AddressAssignmentError\<close> and \<open>RouteInstallError\<close> are the two
  index-carrying errors the specification names for the address and route loops;
  \<open>NsError\<close> stands for one possible result of \<^verbatim>\<open>newNsError\<close>.
\<close>

datatype err =
    LibError string
  | Errorf string err
  | AddressAssignmentError nat err
  | RouteInstallError nat err
  | NsError err

text \<open>
  How a Go function call ends: it returns a value, or a run-time panic unwinds it
  (a nil pointer dereference).
\<close>

datatype 'a outcome = Returns 'a | Panics

section \<open>The health server (package healthserver)\<close>

text \<open>The values of \<^verbatim>\<open>HealthCheckResponse_ServingStatus\<close> of grpc_health_v1.\<close>

datatype ServingStatus = UNKNOWN | SERVING | NOT_SERVING | SERVICE_UNKNOWN

text \<open>
  What the health server calls outside its own file, over a state \<open>'s\<close> of the
  outside world and connections \<open>'c\<close>:
  \<^item> \<open>grpcDial\<close>, the package variable (initially \<^verbatim>\<open>grpc.Dial\<close>); Go returns the pair
    \<^verbatim>\<open>(conn, err)\<close>, and the source tests \<^verbatim>\<open>conn == nil\<close> and \<^verbatim>\<open>err != nil\<close>
    separately, so both components are optional here;
  \<^item> \<open>health_Check\<close>, \<^verbatim>\<open>healthpb.NewHealthClient(conn).Check(...)\<close> on a connection
    that is not nil: an error, or a response, of which the source reads the status;
  \<^item> \<open>conn_Close\<close>, \<^verbatim>\<open>conn.Close()\<close>;
  \<^item> the constants and the status variable of package \<^verbatim>\<open>types\<close>, whose declarations
    are not among the sources. \<open>ServiceServerStatus\<close> reads the process-wide variable;
    it is a call on the environment so that an instrumented environment sees the read.
\<close>

record ('s, 'c) probe_env =
  grpcDial :: "string \<Rightarrow> 's \<Rightarrow> ('c option \<times> err option) \<times> 's"
  health_Check :: "'c \<Rightarrow> 's \<Rightarrow> (err + ServingStatus) \<times> 's"
  conn_Close :: "'c \<Rightarrow> 's \<Rightarrow> err option \<times> 's"
  InfraManagerAddr :: string
  InfraManagerPort :: string
  InfraAgentAddr :: string
  InfraAgentPort :: string
  ServiceServerStatus :: "'s \<Rightarrow> string \<times> 's"
  ServerStatusOK :: string

definition StatusOK :: nat where
  "StatusOK = 200"

definition StatusInternalServerError :: nat where
  "StatusInternalServerError = 500"

text \<open>
  The deferred function of \<^verbatim>\<open>checkGrpcServerStatus\<close>: it runs on every way out, closes
  the connection unless it is nil, and only logs an error of \<^verbatim>\<open>Close\<close>.
\<close>

definition deferred_close ::
  "('s, 'c) probe_env \<Rightarrow> 'c option \<Rightarrow> bool outcome \<times> 's \<Rightarrow> bool outcome \<times> 's" where
  "deferred_close env conn out =
     (case conn of
        None \<Rightarrow> out
      | Some c \<Rightarrow> (fst out, snd (conn_Close env c (snd out))))"

text \<open>
  \<^verbatim>\<open>checkGrpcServerStatus\<close>. With a nil error and a nil connection the call of
  \<^verbatim>\<open>Check\<close> goes through the nil connection: a run-time panic.
\<close>

definition checkGrpcServerStatus ::
  "('s, 'c) probe_env \<Rightarrow> string \<Rightarrow> 's \<Rightarrow> bool outcome \<times> 's" where
  "checkGrpcServerStatus env target s0 =
     (case grpcDial env target s0 of
        ((conn, dial_err), s1) \<Rightarrow>
          deferred_close env conn
            (case dial_err of
               Some e \<Rightarrow> (Returns False, s1)
             | None \<Rightarrow>
                 (case conn of
                    None \<Rightarrow> (Panics, s1)
                  | Some c \<Rightarrow>
                      (case health_Check env c s1 of
                         (Inl e, s2) \<Rightarrow> (Returns False, s2)
                       | (Inr status, s2) \<Rightarrow> (Returns (status = SERVING), s2)))))"

text \<open>\<^verbatim>\<open>fmt.Sprintf("%s:%s", addr, port)\<close>.\<close>

definition host_port :: "string \<Rightarrow> string \<Rightarrow> string" where
  "host_port addr port = addr @ '':'' @ port"

definition checkInfraManagerLiveness :: "('s, 'c) probe_env \<Rightarrow> 's \<Rightarrow> bool outcome \<times> 's" where
  "checkInfraManagerLiveness env s =
     checkGrpcServerStatus env (host_port (InfraManagerAddr env) (InfraManagerPort env)) s"

definition checkCniServerLiveness :: "('s, 'c) probe_env \<Rightarrow> 's \<Rightarrow> bool outcome \<times> 's" where
  "checkCniServerLiveness env s =
     checkGrpcServerStatus env (host_port (InfraAgentAddr env) (InfraAgentPort env)) s"

definition checkServicesServerStatus :: "('s, 'c) probe_env \<Rightarrow> 's \<Rightarrow> bool \<times> 's" where
  "checkServicesServerStatus env s =
     (case ServiceServerStatus env s of
        (status, s1) \<Rightarrow> (status = ServerStatusOK env, s1))"

text \<open>
  The handler \<^verbatim>\<open>getCheck\<close> returns nothing and writes one status code with
  \<^verbatim>\<open>w.WriteHeader\<close>; the model returns the code written. A panic of a check unwinds
  the handler before any code is written.
\<close>

definition getCheck :: "('s, 'c) probe_env \<Rightarrow> 's \<Rightarrow> nat outcome \<times> 's" where
  "getCheck env s0 =
     (case checkInfraManagerLiveness env s0 of
        (Panics, s1) \<Rightarrow> (Panics, s1)
      | (Returns ok1, s1) \<Rightarrow>
          if \<not> ok1 then (Returns StatusInternalServerError, s1)
          else
            (case checkCniServerLiveness env s1 of
               (Panics, s2) \<Rightarrow> (Panics, s2)
             | (Returns ok2, s2) \<Rightarrow>
                 if \<not> ok2 then (Returns StatusInternalServerError, s2)
                 else
                   (case checkServicesServerStatus env s2 of
                      (ok3, s3) \<Rightarrow>
                        if \<not> ok3 then (Returns StatusInternalServerError, s3)
                        else (Returns StatusOK, s3))))"

text \<open>
  An instrumented environment: the same calls, each recorded with its result in a
  log carried beside the state. Nothing but the log differs from the environment
  it wraps.
\<close>

datatype 'c probe_call =
    Dial string "'c option" "err option"
  | HealthCheck 'c "err + ServingStatus"
  | CloseConn 'c
  | ReadStatus string

definition logged_probe :: "('s, 'c) probe_env \<Rightarrow> ('s \<times> 'c probe_call list, 'c) probe_env" where
  "logged_probe env =
     \<lparr> grpcDial = (\<lambda>target (s, tr).
         case grpcDial env target s of
           ((conn, e), s') \<Rightarrow> ((conn, e), (s', tr @ [Dial target conn e]))),
       health_Check = (\<lambda>c (s, tr).
         case health_Check env c s of
           (r, s') \<Rightarrow> (r, (s', tr @ [HealthCheck c r]))),
       conn_Close = (\<lambda>c (s, tr).
         case conn_Close env c s of
           (r, s') \<Rightarrow> (r, (s', tr @ [CloseConn c]))),
       InfraManagerAddr = InfraManagerAddr env,
       InfraManagerPort = InfraManagerPort env,
       InfraAgentAddr = InfraAgentAddr env,
       InfraAgentPort = InfraAgentPort env,
       ServiceServerStatus = (\<lambda>(s, tr).
         case ServiceServerStatus env s of
           (v, s') \<Rightarrow> (v, (s', tr @ [ReadStatus v]))),
       ServerStatusOK = ServerStatusOK env \<rparr>"

text \<open>
  A stub environment for concrete runs: a table of dial results per target, a table
  of health replies per connection, and the value of the status variable. Its state
  is empty.
\<close>

definition stub_probe ::
  "(string \<Rightarrow> nat option \<times> err option) \<Rightarrow> (nat \<Rightarrow> err + ServingStatus) \<Rightarrow> string
     \<Rightarrow> (unit, nat) probe_env" where
  "stub_probe dial reply flag =
     \<lparr> grpcDial = (\<lambda>target s. (dial target, s)),
       health_Check = (\<lambda>c s. (reply c, s)),
       conn_Close = (\<lambda>c s. (None, s)),
       InfraManagerAddr = ''mgr'',
       InfraManagerPort = ''50002'',
       InfraAgentAddr = ''agent'',
       InfraAgentPort = ''50001'',
       ServiceServerStatus = (\<lambda>s. (flag, s)),
       ServerStatusOK = ''OK'' \<rparr>"

definition dial_table :: "string \<Rightarrow> nat option \<times> err option" where
  "dial_table target =
     (if target = ''mgr:50002'' then (Some 1, None)
      else if target = ''agent:50001'' then (Some 2, None)
      else (None, Some (LibError ''connection refused'')))"

text \<open>
  Reading a log of the health server: the targets dialled, the connections a health
  call was made on, the connections closed, and the number of reads of the status
  variable, each in the order of the log.
\<close>

fun dialled :: "'c probe_call list \<Rightarrow> string list" where
  "dialled [] = []"
| "dialled (Dial target conn e # tr) = target # dialled tr"
| "dialled (HealthCheck c r # tr) = dialled tr"
| "dialled (CloseConn c # tr) = dialled tr"
| "dialled (ReadStatus v # tr) = dialled tr"

fun checked :: "'c probe_call list \<Rightarrow> 'c list" where
  "checked [] = []"
| "checked (Dial target conn e # tr) = checked tr"
| "checked (HealthCheck c r # tr) = c # checked tr"
| "checked (CloseConn c # tr) = checked tr"
| "checked (ReadStatus v # tr) = checked tr"

fun closed :: "'c probe_call list \<Rightarrow> 'c list" where
  "closed [] = []"
| "closed (Dial target conn e # tr) = closed tr"
| "closed (HealthCheck c r # tr) = closed tr"
| "closed (CloseConn c # tr) = c # closed tr"
| "closed (ReadStatus v # tr) = closed tr"

fun status_reads :: "'c probe_call list \<Rightarrow> nat" where
  "status_reads [] = 0"
| "status_reads (Dial target conn e # tr) = status_reads tr"
| "status_reads (HealthCheck c r # tr) = status_reads tr"
| "status_reads (CloseConn c # tr) = status_reads tr"
| "status_reads (ReadStatus v # tr) = Suc (status_reads tr)"

text \<open>The two targets the handler probes, in the order it probes them.\<close>

definition manager_target :: "('s, 'c) probe_env \<Rightarrow> string" where
  "manager_target env = host_port (InfraManagerAddr env) (InfraManagerPort env)"

definition agent_target :: "('s, 'c) probe_env \<Rightarrow> string" where
  "agent_target env = host_port (InfraAgentAddr env) (InfraAgentPort env)"

section \<open>The SR-IOV interface migration (package netconf)\<close>

text \<open>
  The request \<^verbatim>\<open>pb.AddRequest\<close> and the result \<^verbatim>\<open>types.InterfaceInfo\<close>, with the
  fields the two functions read. Their declarations are not among the sources:
  \<open>Settings\<close> is a protobuf message field (a pointer, nil when the message is not set),
  \<open>Mtu\<close> a signed integer, an address entry and a route entry are opaque strings.
  \<open>info_InterfaceName\<close> is \<^verbatim>\<open>res.InterfaceName\<close>, the name the interface has in the
  host namespace; \<open>InterfaceName\<close> is \<^verbatim>\<open>in.InterfaceName\<close>, the name it is to get.
\<close>

type_synonym IPConfig = string
type_synonym route = string

record ContainerSettings =
  Mtu :: int

record AddRequest =
  Netns :: string
  InterfaceName :: string
  Settings :: "ContainerSettings option"
  ContainerIps :: "IPConfig list"
  ContainerRoutes :: "route list"

record InterfaceInfo =
  PciAddr :: string
  info_InterfaceName :: string

text \<open>
  What the two functions call outside their file, over a state \<open>'s\<close> of the kernel
  and the calling context, link handles \<open>'l\<close> and namespace handles \<open>'n\<close>. A call
  takes the state and returns its result with the state it leaves.
  \<^item> \<open>ns_GetNS\<close>, \<open>ns_Fd\<close>: \<^verbatim>\<open>ns.GetNS\<close> and \<^verbatim>\<open>nn.Fd()\<close>.
  \<^item> \<open>ns_enter\<close>, \<open>ns_leave\<close>: the two halves of \<^verbatim>\<open>ns.WithNetNSPath\<close>, binding the
    calling context to the namespace at a path (which can fail) and restoring it.
  \<^item> \<open>netlink_...\<close>: the calls of package netlink (\<^verbatim>\<open>AddrAdd\<close> and \<^verbatim>\<open>RouteAdd\<close> are
    the calls of the two loops below, not of the two functions themselves).
  \<^item> \<open>netconf_setLinkAddress\<close>, \<open>netconf_setupPodRoute\<close>, \<open>netconf_newNsError\<close>: functions
    of package netconf itself that are not among the sources, taken as parameters.
\<close>

record ('s, 'l, 'n) net_env =
  ns_GetNS :: "string \<Rightarrow> 's \<Rightarrow> (err + 'n) \<times> 's"
  ns_Fd :: "'n \<Rightarrow> int"
  ns_enter :: "string \<Rightarrow> 's \<Rightarrow> err option \<times> 's"
  ns_leave :: "'s \<Rightarrow> 's"
  netlink_LinkByName :: "string \<Rightarrow> 's \<Rightarrow> (err + 'l) \<times> 's"
  netlink_LinkSetDown :: "'l \<Rightarrow> 's \<Rightarrow> err option \<times> 's"
  netlink_LinkSetMTU :: "'l \<Rightarrow> int \<Rightarrow> 's \<Rightarrow> err option \<times> 's"
  netlink_LinkSetNsFd :: "'l \<Rightarrow> int \<Rightarrow> 's \<Rightarrow> err option \<times> 's"
  netlink_LinkSetName :: "'l \<Rightarrow> string \<Rightarrow> 's \<Rightarrow> err option \<times> 's"
  netlink_LinkSetUp :: "'l \<Rightarrow> 's \<Rightarrow> err option \<times> 's"
  netlink_AddrAdd :: "'l \<Rightarrow> IPConfig \<Rightarrow> 's \<Rightarrow> err option \<times> 's"
  netlink_RouteAdd :: "'l \<Rightarrow> route \<Rightarrow> 's \<Rightarrow> err option \<times> 's"
  netconf_setLinkAddress :: "'l \<Rightarrow> IPConfig list \<Rightarrow> 's \<Rightarrow> err option \<times> 's"
  netconf_setupPodRoute :: "'l \<Rightarrow> route list \<Rightarrow> 's \<Rightarrow> err option \<times> 's"
  netconf_newNsError :: "err \<Rightarrow> err"

text \<open>
  \<^verbatim>\<open>ns.WithNetNSPath(path, toRun)\<close>: when the namespace cannot be entered the error is
  returned and \<^verbatim>\<open>toRun\<close> does not run; otherwise \<^verbatim>\<open>toRun\<close> runs inside the
  namespace, the context is restored whatever \<^verbatim>\<open>toRun\<close> returned, and its result is
  returned. (The closure's argument, the namespace left, is not used by the source.)
\<close>

definition WithNetNSPath ::
  "('s, 'l, 'n) net_env \<Rightarrow> string \<Rightarrow> ('s \<Rightarrow> err option \<times> 's) \<Rightarrow> 's \<Rightarrow> err option \<times> 's" where
  "WithNetNSPath env nspath toRun s0 =
     (case ns_enter env nspath s0 of
        (Some e, s1) \<Rightarrow> (Some e, s1)
      | (None, s1) \<Rightarrow> (case toRun s1 of (r, s2) \<Rightarrow> (r, ns_leave env s2)))"

text \<open>
  \<^verbatim>\<open>configureSriovNamespace\<close>. The rename goes through the parameter \<open>linkObj\<close>; the
  \<^verbatim>\<open>linkObj, err := netlink.LinkByName(...)\<close> after it declares a new variable, here
  \<open>linkObj2\<close>, that the rest of the closure uses.
\<close>

definition configureSriovNamespace ::
  "('s, 'l, 'n) net_env \<Rightarrow> AddRequest \<Rightarrow> 'l \<Rightarrow> 's \<Rightarrow> err option \<times> 's" where
  "configureSriovNamespace env req linkObj =
     WithNetNSPath env (Netns req) (\<lambda>s0.
       case netlink_LinkSetName env linkObj (InterfaceName req) s0 of
         (Some e, s1) \<Rightarrow> (Some (Errorf ''cannot set link name'' e), s1)
       | (None, s1) \<Rightarrow>
       (case netlink_LinkByName env (InterfaceName req) s1 of
         (Inl e, s2) \<Rightarrow> (Some e, s2)
       | (Inr linkObj2, s2) \<Rightarrow>
       (case netconf_setLinkAddress env linkObj2 (ContainerIps req) s2 of
         (Some e, s3) \<Rightarrow> (Some (Errorf ''cannot set link address'' e), s3)
       | (None, s3) \<Rightarrow>
       (case netlink_LinkSetUp env linkObj2 s3 of
         (Some e, s4) \<Rightarrow> (Some (Errorf ''cannot set link up'' e), s4)
       | (None, s4) \<Rightarrow>
       (case netconf_setupPodRoute env linkObj2 (ContainerRoutes req) s4 of
         (Some e, s5) \<Rightarrow> (Some (Errorf ''cannot setup routes'' e), s5)
       | (None, s5) \<Rightarrow> (None, s5))))))"

text \<open>
  \<^verbatim>\<open>DoSriovNetwork\<close>. The result is the returned \<^verbatim>\<open>error\<close> (\<open>None\<close> for nil).
  \<^verbatim>\<open>in.GetSettings().Mtu\<close> reads a field through the pointer \<^verbatim>\<open>GetSettings()\<close>
  returns: with no settings message the read panics. Logging is left out.
\<close>

definition DoSriovNetwork ::
  "('s, 'l, 'n) net_env \<Rightarrow> AddRequest \<Rightarrow> InterfaceInfo \<Rightarrow> 's \<Rightarrow> err option outcome \<times> 's" where
  "DoSriovNetwork env req res s0 =
     (case ns_GetNS env (Netns req) s0 of
        (Inl e, s1) \<Rightarrow> (Returns (Some e), s1)
      | (Inr nn, s1) \<Rightarrow>
     (case netlink_LinkByName env (info_InterfaceName res) s1 of
        (Inl e, s2) \<Rightarrow> (Returns (Some e), s2)
      | (Inr linkObj, s2) \<Rightarrow>
     (case netlink_LinkSetDown env linkObj s2 of
        (Some e, s3) \<Rightarrow> (Returns (Some e), s3)
      | (None, s3) \<Rightarrow>
     (case Settings req of
        None \<Rightarrow> (Panics, s3)
      | Some settings \<Rightarrow>
     (case (if 0 < Mtu settings then netlink_LinkSetMTU env linkObj (Mtu settings) s3
            else (None, s3)) of
        (Some e, s4) \<Rightarrow> (Returns (Some e), s4)
      | (None, s4) \<Rightarrow>
     (case netlink_LinkSetNsFd env linkObj (ns_Fd env nn) s4 of
        (Some e, s5) \<Rightarrow> (Returns (Some e), s5)
      | (None, s5) \<Rightarrow>
     (case configureSriovNamespace env req linkObj s5 of
        (Some e, s6) \<Rightarrow> (Returns (Some (netconf_newNsError env e)), s6)
      | (None, s6) \<Rightarrow> (Returns None, s6))))))))"

subsection \<open>The address and route loops\<close>

text \<open>
  Modelled from the spec: \<^verbatim>\<open>setLinkAddress\<close>, which is not among the sources. "Apply
  every entry in addresses, in order. First failure aborts the remaining address
  assignments and surfaces AddressAssignmentError carrying the failing entry's
  index." The second argument of \<open>setLinkAddress_from\<close> is the index of the entry
  at the head of the list.
\<close>

fun setLinkAddress_from ::
  "('s, 'l, 'n) net_env \<Rightarrow> 'l \<Rightarrow> nat \<Rightarrow> IPConfig list \<Rightarrow> 's \<Rightarrow> err option \<times> 's" where
  "setLinkAddress_from env link i [] s = (None, s)"
| "setLinkAddress_from env link i (a # as) s =
     (case netlink_AddrAdd env link a s of
        (Some e, s1) \<Rightarrow> (Some (AddressAssignmentError i e), s1)
      | (None, s1) \<Rightarrow> setLinkAddress_from env link (Suc i) as s1)"

definition setLinkAddress ::
  "('s, 'l, 'n) net_env \<Rightarrow> 'l \<Rightarrow> IPConfig list \<Rightarrow> 's \<Rightarrow> err option \<times> 's" where
  "setLinkAddress env link ips = setLinkAddress_from env link 0 ips"

text \<open>
  Modelled from the spec: \<^verbatim>\<open>setupPodRoute\<close>, which is not among the sources. "Apply
  every entry in routes, in order, using the now-active interface as the implicit
  default device where the route specification omits one. First failure aborts
  remaining route installs and surfaces RouteInstallError carrying the failing
  entry's index."
\<close>

fun setupPodRoute_from ::
  "('s, 'l, 'n) net_env \<Rightarrow> 'l \<Rightarrow> nat \<Rightarrow> route list \<Rightarrow> 's \<Rightarrow> err option \<times> 's" where
  "setupPodRoute_from env link i [] s = (None, s)"
| "setupPodRoute_from env link i (r # rs) s =
     (case netlink_RouteAdd env link r s of
        (Some e, s1) \<Rightarrow> (Some (RouteInstallError i e), s1)
      | (None, s1) \<Rightarrow> setupPodRoute_from env link (Suc i) rs s1)"

definition setupPodRoute ::
  "('s, 'l, 'n) net_env \<Rightarrow> 'l \<Rightarrow> route list \<Rightarrow> 's \<Rightarrow> err option \<times> 's" where
  "setupPodRoute env link routes = setupPodRoute_from env link 0 routes"

text \<open>The environment with the two loops above in the place of the parameters.\<close>

definition with_loops :: "('s, 'l, 'n) net_env \<Rightarrow> ('s, 'l, 'n) net_env" where
  "with_loops env =
     env \<lparr> netconf_setLinkAddress := setLinkAddress env,
           netconf_setupPodRoute := setupPodRoute env \<rparr>"

subsection \<open>Recording the calls\<close>

text \<open>
  A call on the environment with its arguments, and what it answered. The log of a
  run is the list of its calls in the order they were made.
\<close>

datatype 'l net_call =
    GetNS string
  | LinkByName string
  | LinkSetDown 'l
  | LinkSetMTU 'l int
  | LinkSetNsFd 'l int
  | EnterNetNS string
  | LinkSetName 'l string
  | SetLinkAddress 'l "IPConfig list"
  | LinkSetUp 'l
  | SetupPodRoute 'l "route list"
  | AddrAdd 'l IPConfig
  | RouteAdd 'l route

datatype 'l reply = Failed err | Done | Found 'l

type_synonym 'l net_log = "('l net_call \<times> 'l reply) list"

definition reply_of :: "err option \<Rightarrow> 'l reply" where
  "reply_of r = (case r of None \<Rightarrow> Done | Some e \<Rightarrow> Failed e)"

definition logging ::
  "'l net_call \<Rightarrow> ('s \<Rightarrow> err option \<times> 's) \<Rightarrow> 's \<times> 'l net_log \<Rightarrow> err option \<times> 's \<times> 'l net_log" where
  "logging c f = (\<lambda>(s, tr). case f s of (r, s1) \<Rightarrow> (r, (s1, tr @ [(c, reply_of r)])))"

text \<open>
  The instrumented environment: every call is passed on to \<open>env\<close> and recorded.
  Restoring the context (\<open>ns_leave\<close>) cannot fail and is not recorded.
\<close>

definition logged_net :: "('s, 'l, 'n) net_env \<Rightarrow> ('s \<times> 'l net_log, 'l, 'n) net_env" where
  "logged_net env =
     \<lparr> ns_GetNS = (\<lambda>p (s, tr).
         case ns_GetNS env p s of
           (Inl e, s1) \<Rightarrow> (Inl e, (s1, tr @ [(GetNS p, Failed e)]))
         | (Inr nn, s1) \<Rightarrow> (Inr nn, (s1, tr @ [(GetNS p, Done)]))),
       ns_Fd = ns_Fd env,
       ns_enter = (\<lambda>p. logging (EnterNetNS p) (ns_enter env p)),
       ns_leave = (\<lambda>(s, tr). (ns_leave env s, tr)),
       netlink_LinkByName = (\<lambda>nm (s, tr).
         case netlink_LinkByName env nm s of
           (Inl e, s1) \<Rightarrow> (Inl e, (s1, tr @ [(LinkByName nm, Failed e)]))
         | (Inr l, s1) \<Rightarrow> (Inr l, (s1, tr @ [(LinkByName nm, Found l)]))),
       netlink_LinkSetDown = (\<lambda>l. logging (LinkSetDown l) (netlink_LinkSetDown env l)),
       netlink_LinkSetMTU = (\<lambda>l m. logging (LinkSetMTU l m) (netlink_LinkSetMTU env l m)),
       netlink_LinkSetNsFd = (\<lambda>l fd. logging (LinkSetNsFd l fd) (netlink_LinkSetNsFd env l fd)),
       netlink_LinkSetName = (\<lambda>l nm. logging (LinkSetName l nm) (netlink_LinkSetName env l nm)),
       netlink_LinkSetUp = (\<lambda>l. logging (LinkSetUp l) (netlink_LinkSetUp env l)),
       netlink_AddrAdd = (\<lambda>l a. logging (AddrAdd l a) (netlink_AddrAdd env l a)),
       netlink_RouteAdd = (\<lambda>l r. logging (RouteAdd l r) (netlink_RouteAdd env l r)),
       netconf_setLinkAddress = (\<lambda>l ips.
         logging (SetLinkAddress l ips) (netconf_setLinkAddress env l ips)),
       netconf_setupPodRoute = (\<lambda>l rs.
         logging (SetupPodRoute l rs) (netconf_setupPodRoute env l rs)),
       netconf_newNsError = netconf_newNsError env \<rparr>"

subsection \<open>A simulated kernel for concrete runs\<close>

text \<open>
  One interface and the namespace the calling context is bound to. A link handle
  is the pair of the namespace and the name under which it was resolved, so a
  handle resolved in the host namespace differs from one resolved in the target.
  \<open>sim nss faults\<close> knows the namespace paths \<open>nss\<close>; a call whose name (or, for
  \<^verbatim>\<open>AddrAdd\<close> and \<^verbatim>\<open>RouteAdd\<close>, whose entry) is listed in \<open>faults\<close> fails and
  changes nothing.
\<close>

record sim_link =
  l_name :: string
  l_ns :: string
  l_up :: bool
  l_mtu :: int
  l_addrs :: "IPConfig list"
  l_routes :: "route list"

record sim_world =
  cur_ns :: string
  dev :: sim_link

definition eperm :: err where
  "eperm = LibError ''operation not permitted''"

definition sim_set ::
  "string list \<Rightarrow> string \<Rightarrow> (sim_link \<Rightarrow> sim_link) \<Rightarrow> sim_world \<Rightarrow> err option \<times> sim_world" where
  "sim_set faults name f w =
     (if name \<in> set faults then (Some eperm, w) else (None, w\<lparr>dev := f (dev w)\<rparr>))"

definition sim ::
  "string list \<Rightarrow> string list \<Rightarrow> (sim_world, string \<times> string, string) net_env" where
  "sim nss faults =
     \<lparr> ns_GetNS = (\<lambda>p w.
         if p \<in> set nss then (Inr p, w)
         else (Inl (LibError ''no such file or directory''), w)),
       ns_Fd = (\<lambda>p. int (length p)),
       ns_enter = (\<lambda>p w.
         if p \<in> set nss \<and> ''WithNetNSPath'' \<notin> set faults then (None, w\<lparr>cur_ns := p\<rparr>)
         else (Some (LibError ''no such file or directory''), w)),
       ns_leave = (\<lambda>w. w\<lparr>cur_ns := ''host''\<rparr>),
       netlink_LinkByName = (\<lambda>nm w.
         if l_name (dev w) = nm \<and> l_ns (dev w) = cur_ns w then (Inr (cur_ns w, nm), w)
         else (Inl (LibError ''Link not found''), w)),
       netlink_LinkSetDown = (\<lambda>l. sim_set faults ''LinkSetDown'' (\<lambda>d. d\<lparr>l_up := False\<rparr>)),
       netlink_LinkSetMTU = (\<lambda>l m. sim_set faults ''LinkSetMTU'' (\<lambda>d. d\<lparr>l_mtu := m\<rparr>)),
       netlink_LinkSetNsFd = (\<lambda>l fd w.
         case find (\<lambda>p. int (length p) = fd) nss of
           None \<Rightarrow> (Some (LibError ''bad file descriptor''), w)
         | Some p \<Rightarrow> sim_set faults ''LinkSetNsFd'' (\<lambda>d. d\<lparr>l_ns := p\<rparr>) w),
       netlink_LinkSetName = (\<lambda>l nm. sim_set faults ''LinkSetName'' (\<lambda>d. d\<lparr>l_name := nm\<rparr>)),
       netlink_LinkSetUp = (\<lambda>l. sim_set faults ''LinkSetUp'' (\<lambda>d. d\<lparr>l_up := True\<rparr>)),
       netlink_AddrAdd = (\<lambda>l a. sim_set faults a (\<lambda>d. d\<lparr>l_addrs := l_addrs d @ [a]\<rparr>)),
       netlink_RouteAdd = (\<lambda>l r. sim_set faults r (\<lambda>d. d\<lparr>l_routes := l_routes d @ [r]\<rparr>)),
       netconf_setLinkAddress = (\<lambda>l ips.
         sim_set faults ''setLinkAddress'' (\<lambda>d. d\<lparr>l_addrs := l_addrs d @ ips\<rparr>)),
       netconf_setupPodRoute = (\<lambda>l rs.
         sim_set faults ''setupPodRoute'' (\<lambda>d. d\<lparr>l_routes := l_routes d @ rs\<rparr>)),
       netconf_newNsError = NsError \<rparr>"

text \<open>The scenario of the specification: eth0 in the host namespace, to become net1 in ns1.\<close>

definition ns1 :: string where
  "ns1 = ''/run/netns/ns1''"

definition host0 :: sim_world where
  "host0 =
     \<lparr> cur_ns = ''host'',
       dev = \<lparr> l_name = ''eth0'', l_ns = ''host'', l_up = True, l_mtu = 9000,
               l_addrs = [], l_routes = [] \<rparr> \<rparr>"

definition req0 :: AddRequest where
  "req0 =
     \<lparr> Netns = ns1, InterfaceName = ''net1'', Settings = Some \<lparr> Mtu = 1500 \<rparr>,
       ContainerIps = [''10.0.0.5/24'', ''10.0.0.6/24'', ''10.0.0.7/24''],
       ContainerRoutes = [''10.1.0.0/16'', ''default via 10.0.0.1''] \<rparr>"

definition res0 :: InterfaceInfo where
  "res0 = \<lparr> PciAddr = ''0000:03:00.1'', info_InterfaceName = ''eth0'' \<rparr>"


definition req_no_mtu :: AddRequest where
  "req_no_mtu = req0 \<lparr> Settings := Some \<lparr> Mtu = 0 \<rparr> \<rparr>"

text \<open>The state of the scenario after the move: eth0, down, in ns1.\<close>

definition moved0 :: sim_world where
  "moved0 =
     \<lparr> cur_ns = ''host'',
       dev = \<lparr> l_name = ''eth0'', l_ns = ns1, l_up = False, l_mtu = 1500,
               l_addrs = [], l_routes = [] \<rparr> \<rparr>"

subsection \<open>Reading a log\<close>

fun failed :: "'l reply \<Rightarrow> bool" where
  "failed (Failed e) = True"
| "failed Done = False"
| "failed (Found l) = False"

text \<open>
  The order of the specification's steps as calls, with the namespace entry of
  \<^verbatim>\<open>ns.WithNetNSPath\<close> between the move and the rename: \<open>l\<close> is the handle the steps
  before the re-resolution use, \<open>fd\<close> the descriptor of the target namespace, \<open>l2\<close>
  the handle the steps after the re-resolution use.
\<close>

definition migration_order ::
  "AddRequest \<Rightarrow> InterfaceInfo \<Rightarrow> 'l \<Rightarrow> int \<Rightarrow> 'l \<Rightarrow> 'l net_call list" where
  "migration_order req res l fd l2 =
     [GetNS (Netns req), LinkByName (info_InterfaceName res), LinkSetDown l]
     @ (case Settings req of
          None \<Rightarrow> []
        | Some st \<Rightarrow> if 0 < Mtu st then [LinkSetMTU l (Mtu st)] else [])
     @ [LinkSetNsFd l fd, EnterNetNS (Netns req), LinkSetName l (InterfaceName req),
        LinkByName (InterfaceName req), SetLinkAddress l2 (ContainerIps req),
        LinkSetUp l2, SetupPodRoute l2 (ContainerRoutes req)]"


text \<open>The entries of a log before the first call that satisfies \<open>P\<close>.\<close>

fun before :: "('c \<Rightarrow> bool) \<Rightarrow> ('c \<times> 'a) list \<Rightarrow> ('c \<times> 'a) list" where
  "before P [] = []"
| "before P (x # xs) = (if P (fst x) then [] else x # before P xs)"

fun is_move :: "'l net_call \<Rightarrow> bool" where
  "is_move (LinkSetNsFd l fd) = True"
| "is_move c = False"

fun is_enter :: "'l net_call \<Rightarrow> bool" where
  "is_enter (EnterNetNS p) = True"
| "is_enter c = False"


fun is_set_mtu :: "'l net_call \<Rightarrow> bool" where
  "is_set_mtu (LinkSetMTU l m) = True"
| "is_set_mtu c = False"

fun is_addr_add :: "'l net_call \<Rightarrow> bool" where
  "is_addr_add (AddrAdd l a) = True"
| "is_addr_add c = False"

fun is_route_add :: "'l net_call \<Rightarrow> bool" where
  "is_route_add (RouteAdd l r) = True"
| "is_route_add c = False"



text \<open>
  The error \<^verbatim>\<open>DoSriovNetwork\<close> returns when the call \<open>c\<close> failed with \<open>e\<close>:
  \<open>inside\<close> tells whether the run had reached \<^verbatim>\<open>ns.WithNetNSPath\<close>, \<open>wrap\<close> is
  \<^verbatim>\<open>newNsError\<close>.
\<close>

definition surfaced :: "(err \<Rightarrow> err) \<Rightarrow> bool \<Rightarrow> 'l net_call \<Rightarrow> err \<Rightarrow> err" where
  "surfaced wrap inside c e =
     (if \<not> inside then e
      else wrap
        (case c of
           LinkSetName l nm \<Rightarrow> Errorf ''cannot set link name'' e
         | SetLinkAddress l ips \<Rightarrow> Errorf ''cannot set link address'' e
         | LinkSetUp l \<Rightarrow> Errorf ''cannot set link up'' e
         | SetupPodRoute l rs \<Rightarrow> Errorf ''cannot setup routes'' e
         | _ \<Rightarrow> e))"

text \<open>
  \<open>only_set_mtu_changes obs env\<close>: no call of \<open>env\<close> other than \<^verbatim>\<open>LinkSetMTU\<close> changes
  what \<open>obs\<close> reads from the state (the interface's MTU, say).
\<close>

definition only_set_mtu_changes :: "('s \<Rightarrow> 'o) \<Rightarrow> ('s, 'l, 'n) net_env \<Rightarrow> bool" where
  "only_set_mtu_changes obs env \<longleftrightarrow>
     (\<forall>p s. obs (snd (ns_GetNS env p s)) = obs s) \<and>
     (\<forall>p s. obs (snd (ns_enter env p s)) = obs s) \<and>
     (\<forall>s. obs (ns_leave env s) = obs s) \<and>
     (\<forall>nm s. obs (snd (netlink_LinkByName env nm s)) = obs s) \<and>
     (\<forall>l s. obs (snd (netlink_LinkSetDown env l s)) = obs s) \<and>
     (\<forall>l fd s. obs (snd (netlink_LinkSetNsFd env l fd s)) = obs s) \<and>
     (\<forall>l nm s. obs (snd (netlink_LinkSetName env l nm s)) = obs s) \<and>
     (\<forall>l s. obs (snd (netlink_LinkSetUp env l s)) = obs s) \<and>
     (\<forall>l ips s. obs (snd (netconf_setLinkAddress env l ips s)) = obs s) \<and>
     (\<forall>l rs s. obs (snd (netconf_setupPodRoute env l rs s)) = obs s)"

section \<open>Properties of the health server\<close>

text \<open>
  C8. A downstream probe is healthy exactly when the dial gave a connection and no
  error and the health reply came back without error and with status SERVING.
  A dial that reports an error, a health call that reports an error, and a reply
  with any other status each make the probe return false.
\<close>

theorem checkGrpcServerStatus_healthy_iff_serving:
  "(fst (checkGrpcServerStatus env target s) = Returns True \<longleftrightarrow>
      (\<exists>c s1 s2. grpcDial env target s = ((Some c, None), s1)
         \<and> health_Check env c s1 = (Inr SERVING, s2)))
   \<and> (\<forall>conn e s1. grpcDial env target s = ((conn, Some e), s1)
         \<longrightarrow> fst (checkGrpcServerStatus env target s) = Returns False)
   \<and> (\<forall>c s1 e s2. grpcDial env target s = ((Some c, None), s1)
         \<and> health_Check env c s1 = (Inl e, s2)
         \<longrightarrow> fst (checkGrpcServerStatus env target s) = Returns False)
   \<and> (\<forall>c s1 st s2. grpcDial env target s = ((Some c, None), s1)
         \<and> health_Check env c s1 = (Inr st, s2) \<and> st \<noteq> SERVING
         \<longrightarrow> fst (checkGrpcServerStatus env target s) = Returns False)"
  by (auto simp: checkGrpcServerStatus_def deferred_close_def
           split: prod.splits option.splits sum.splits)

theorem checkGrpcServerStatus_healthy_iff_serving_witness:
  "fst (checkGrpcServerStatus (stub_probe dial_table (\<lambda>c. Inr SERVING) ''OK'')
          ''mgr:50002'' ()) = Returns True
   \<and> fst (checkGrpcServerStatus (stub_probe dial_table (\<lambda>c. Inr NOT_SERVING) ''OK'')
          ''mgr:50002'' ()) = Returns False
   \<and> fst (checkGrpcServerStatus (stub_probe dial_table (\<lambda>c. Inr UNKNOWN) ''OK'')
          ''mgr:50002'' ()) = Returns False
   \<and> fst (checkGrpcServerStatus
          (stub_probe dial_table (\<lambda>c. Inl (LibError ''deadline exceeded'')) ''OK'')
          ''mgr:50002'' ()) = Returns False
   \<and> fst (checkGrpcServerStatus (stub_probe dial_table (\<lambda>c. Inr SERVING) ''OK'')
          ''nowhere:1'' ()) = Returns False"
  using
    checkGrpcServerStatus_healthy_iff_serving
      [of "stub_probe dial_table (\<lambda>c. Inr SERVING) ''OK''" "''mgr:50002''" "()"]
    checkGrpcServerStatus_healthy_iff_serving
      [of "stub_probe dial_table (\<lambda>c. Inr NOT_SERVING) ''OK''" "''mgr:50002''" "()"]
    checkGrpcServerStatus_healthy_iff_serving
      [of "stub_probe dial_table (\<lambda>c. Inr UNKNOWN) ''OK''" "''mgr:50002''" "()"]
    checkGrpcServerStatus_healthy_iff_serving
      [of "stub_probe dial_table (\<lambda>c. Inl (LibError ''deadline exceeded'')) ''OK''"
          "''mgr:50002''" "()"]
    checkGrpcServerStatus_healthy_iff_serving
      [of "stub_probe dial_table (\<lambda>c. Inr SERVING) ''OK''" "''nowhere:1''" "()"]
  by (simp add: stub_probe_def dial_table_def)

subsection \<open>The instrumented probe\<close>

lemma logged_probe_fields [simp]:
  "grpcDial (logged_probe env) target (s, tr) =
     (case grpcDial env target s of
        ((conn, e), s1) \<Rightarrow> ((conn, e), (s1, tr @ [Dial target conn e])))"
  "health_Check (logged_probe env) c (s, tr) =
     (case health_Check env c s of (r, s1) \<Rightarrow> (r, (s1, tr @ [HealthCheck c r])))"
  "conn_Close (logged_probe env) c (s, tr) =
     (case conn_Close env c s of (r, s1) \<Rightarrow> (r, (s1, tr @ [CloseConn c])))"
  "InfraManagerAddr (logged_probe env) = InfraManagerAddr env"
  "InfraManagerPort (logged_probe env) = InfraManagerPort env"
  "InfraAgentAddr (logged_probe env) = InfraAgentAddr env"
  "InfraAgentPort (logged_probe env) = InfraAgentPort env"
  "ServiceServerStatus (logged_probe env) (s, tr) =
     (case ServiceServerStatus env s of (v, s1) \<Rightarrow> (v, (s1, tr @ [ReadStatus v])))"
  "ServerStatusOK (logged_probe env) = ServerStatusOK env"
  by (simp_all add: logged_probe_def)

lemma log_append [simp]:
  "dialled (tr @ tr2) = dialled tr @ dialled tr2"
  "checked (tr @ tr2) = checked tr @ checked tr2"
  "closed (tr @ tr2) = closed tr @ closed tr2"
  "status_reads (tr @ tr2) = status_reads tr + status_reads tr2"
  by (induction tr rule: dialled.induct) simp_all

lemma probe_logged:
  "case checkGrpcServerStatus (logged_probe env) target (s, tr) of
     (r, s', tr') \<Rightarrow>
       checkGrpcServerStatus env target s = (r, s')
       \<and> dialled tr' = dialled tr @ [target]
       \<and> status_reads tr' = status_reads tr
       \<and> checked tr' = checked tr
            @ (case grpcDial env target s of
                 ((Some c, None), s1) \<Rightarrow> [c]
               | ((conn, e), s1) \<Rightarrow> [])
       \<and> closed tr' = closed tr
            @ (case fst (fst (grpcDial env target s)) of None \<Rightarrow> [] | Some c \<Rightarrow> [c])"
  by (simp add: checkGrpcServerStatus_def deferred_close_def
      split: prod.split option.split sum.split)

lemmas stub_defs = stub_probe_def dial_table_def host_port_def manager_target_def agent_target_def

text \<open>
  The one way the probe has to a panic: a dial that returns neither a connection
  nor an error, which \<^verbatim>\<open>grpc.Dial\<close> does not do.
\<close>

lemma probe_panics_iff:
  assumes "grpcDial env target s = ((conn, e), s1)"
  shows "fst (checkGrpcServerStatus env target s) = Panics \<longleftrightarrow> conn = None \<and> e = None"
  using assms
  by (auto simp: checkGrpcServerStatus_def deferred_close_def
      split: prod.splits option.splits sum.splits)

text \<open>
  C10. For every dial that returns a connection or an error, the probe returns a
  boolean. When the dial reports an error the probe returns false, and when it
  returned no connection the probe makes no further call. The deferred function
  closes exactly the connection the dial returned, and nothing when it returned
  none; a health call is made only on a connection that came without an error.
\<close>

theorem probe_total_and_guarded:
  assumes "grpcDial env target s = ((conn, e), s1)"
    and "conn \<noteq> None \<or> e \<noteq> None"
  shows "(\<exists>b. fst (checkGrpcServerStatus env target s) = Returns b)
    \<and> (e \<noteq> None \<longrightarrow> fst (checkGrpcServerStatus env target s) = Returns False)
    \<and> (conn = None \<longrightarrow> checkGrpcServerStatus env target s = (Returns False, s1))
    \<and> closed (snd (snd (checkGrpcServerStatus (logged_probe env) target (s, []))))
        = (case conn of None \<Rightarrow> [] | Some c \<Rightarrow> [c])
    \<and> checked (snd (snd (checkGrpcServerStatus (logged_probe env) target (s, []))))
        = (case (conn, e) of (Some c, None) \<Rightarrow> [c] | (Some c, Some x) \<Rightarrow> [] | (None, x) \<Rightarrow> [])"
proof -
  have plain: "(\<exists>b. fst (checkGrpcServerStatus env target s) = Returns b)
    \<and> (e \<noteq> None \<longrightarrow> fst (checkGrpcServerStatus env target s) = Returns False)
    \<and> (conn = None \<longrightarrow> checkGrpcServerStatus env target s = (Returns False, s1))"
    using assms
    by (auto simp: checkGrpcServerStatus_def deferred_close_def
        split: prod.splits option.splits sum.splits)
  have logged: "closed (snd (snd (checkGrpcServerStatus (logged_probe env) target (s, []))))
        = (case conn of None \<Rightarrow> [] | Some c \<Rightarrow> [c])
    \<and> checked (snd (snd (checkGrpcServerStatus (logged_probe env) target (s, []))))
        = (case (conn, e) of (Some c, None) \<Rightarrow> [c] | (Some c, Some x) \<Rightarrow> [] | (None, x) \<Rightarrow> [])"
    using assms(1) probe_logged [of env target s "[]"]
    by (auto split: prod.splits option.splits)
  from plain logged show ?thesis by blast
qed

theorem probe_total_and_guarded_witness:
  "grpcDial (stub_probe dial_table (\<lambda>c. Inr SERVING) ''OK'') ''nowhere:1'' ()
     = ((None, Some (LibError ''connection refused'')), ())
   \<and> checkGrpcServerStatus (stub_probe dial_table (\<lambda>c. Inr SERVING) ''OK'') ''nowhere:1'' ()
     = (Returns False, ())
   \<and> closed (snd (snd (checkGrpcServerStatus
        (logged_probe (stub_probe dial_table (\<lambda>c. Inr SERVING) ''OK'')) ''nowhere:1'' ((), [])))) = []
   \<and> checked (snd (snd (checkGrpcServerStatus
        (logged_probe (stub_probe dial_table (\<lambda>c. Inr SERVING) ''OK'')) ''nowhere:1'' ((), [])))) = []
   \<and> grpcDial (stub_probe dial_table (\<lambda>c. Inr SERVING) ''OK'') ''mgr:50002'' ()
     = ((Some 1, None), ())
   \<and> fst (checkGrpcServerStatus (stub_probe dial_table (\<lambda>c. Inr SERVING) ''OK'') ''mgr:50002'' ())
     = Returns True
   \<and> closed (snd (snd (checkGrpcServerStatus
        (logged_probe (stub_probe dial_table (\<lambda>c. Inr SERVING) ''OK'')) ''mgr:50002'' ((), [])))) = [1]
   \<and> checked (snd (snd (checkGrpcServerStatus
        (logged_probe (stub_probe dial_table (\<lambda>c. Inr SERVING) ''OK'')) ''mgr:50002'' ((), [])))) = [1]"
proof -
  have refused:
    "grpcDial (stub_probe dial_table (\<lambda>c. Inr SERVING) ''OK'') ''nowhere:1'' ()
       = ((None, Some (LibError ''connection refused'')), ())"
    by (simp add: stub_defs)
  have connected:
    "grpcDial (stub_probe dial_table (\<lambda>c. Inr SERVING) ''OK'') ''mgr:50002'' ()
       = ((Some 1, None), ())"
    by (simp add: stub_defs)
  have healthy:
    "fst (checkGrpcServerStatus (stub_probe dial_table (\<lambda>c. Inr SERVING) ''OK'') ''mgr:50002'' ())
       = Returns True"
    by (simp add: stub_defs checkGrpcServerStatus_def deferred_close_def)
  from refused connected healthy
    probe_total_and_guarded [OF refused] probe_total_and_guarded [OF connected]
  show ?thesis by simp
qed

subsection \<open>The handler\<close>

lemma probe_logged_rule:
  assumes "checkGrpcServerStatus (logged_probe env) target (s, tr) = (r, (s', tr'))"
  shows "checkGrpcServerStatus env target s = (r, s')"
    and "dialled tr' = dialled tr @ [target]"
    and "status_reads tr' = status_reads tr"
  using probe_logged [of env target s tr] assms by simp_all

lemma services_logged:
  "checkServicesServerStatus (logged_probe env) (s, tr) =
     (fst (checkServicesServerStatus env s),
      (snd (checkServicesServerStatus env s), tr @ [ReadStatus (fst (ServiceServerStatus env s))]))"
  by (simp add: checkServicesServerStatus_def split: prod.split)

text \<open>
  C3. The handler writes 200 exactly when the infra-manager probe, then the
  CNI-server probe, then the status flag all pass. When the infra-manager probe
  fails it writes 500 having dialled the manager only and not read the flag; when
  the CNI-server probe fails it writes 500 having dialled both and not read the
  flag; when the flag is not OK it writes 500.
\<close>

theorem getCheck_short_circuit:
  assumes run: "getCheck (logged_probe env) (s, []) = (r, (s', tr))"
  shows
    "(r = Returns StatusOK \<longleftrightarrow>
        (\<exists>s1 s2. checkInfraManagerLiveness env s = (Returns True, s1)
           \<and> checkCniServerLiveness env s1 = (Returns True, s2)
           \<and> fst (checkServicesServerStatus env s2)))
     \<and> (\<forall>s1. checkInfraManagerLiveness env s = (Returns False, s1) \<longrightarrow>
           r = Returns StatusInternalServerError \<and> s' = s1
           \<and> dialled tr = [manager_target env] \<and> status_reads tr = 0)
     \<and> (\<forall>s1 s2. checkInfraManagerLiveness env s = (Returns True, s1)
           \<and> checkCniServerLiveness env s1 = (Returns False, s2) \<longrightarrow>
           r = Returns StatusInternalServerError \<and> s' = s2
           \<and> dialled tr = [manager_target env, agent_target env] \<and> status_reads tr = 0)
     \<and> (\<forall>s1 s2. checkInfraManagerLiveness env s = (Returns True, s1)
           \<and> checkCniServerLiveness env s1 = (Returns True, s2)
           \<and> \<not> fst (checkServicesServerStatus env s2) \<longrightarrow>
           r = Returns StatusInternalServerError
           \<and> dialled tr = [manager_target env, agent_target env] \<and> status_reads tr = 1)"
proof -
  obtain r1 s1 tr1 where
    c1: "checkGrpcServerStatus (logged_probe env) (manager_target env) (s, []) = (r1, (s1, tr1))"
    by (metis surj_pair)
  note p1 = probe_logged_rule [OF c1]
  have m: "checkInfraManagerLiveness (logged_probe env) (s, []) = (r1, (s1, tr1))"
    "checkInfraManagerLiveness env s = (r1, s1)"
    using c1 p1(1) by (simp_all add: checkInfraManagerLiveness_def manager_target_def)
  show ?thesis
  proof (cases r1)
    case Panics
    with run m show ?thesis
      by (auto simp: getCheck_def)
  next
    case (Returns ok1)
    show ?thesis
    proof (cases ok1)
      case False
      with run m p1 Returns show ?thesis
        by (auto simp: getCheck_def StatusOK_def StatusInternalServerError_def)
    next
      case True
      obtain r2 s2 tr2 where
        c2: "checkGrpcServerStatus (logged_probe env) (agent_target env) (s1, tr1) = (r2, (s2, tr2))"
        by (metis surj_pair)
      note p2 = probe_logged_rule [OF c2]
      have a: "checkCniServerLiveness (logged_probe env) (s1, tr1) = (r2, (s2, tr2))"
        "checkCniServerLiveness env s1 = (r2, s2)"
        using c2 p2(1) by (simp_all add: checkCniServerLiveness_def agent_target_def)
      show ?thesis
      proof (cases r2)
        case Panics
        with run m a Returns True show ?thesis
          by (auto simp: getCheck_def)
      next
        case ok2: (Returns ok2)
        show ?thesis
        proof (cases ok2)
          case False
          with run m a p1 p2 Returns True ok2 show ?thesis
            by (auto simp: getCheck_def StatusOK_def StatusInternalServerError_def)
        next
          case t2: True
          from run m a Returns True ok2 t2
          have last: "(if \<not> fst (checkServicesServerStatus env s2)
                 then (Returns StatusInternalServerError, snd (checkServicesServerStatus env s2),
                       tr2 @ [ReadStatus (fst (ServiceServerStatus env s2))])
                 else (Returns StatusOK, snd (checkServicesServerStatus env s2),
                       tr2 @ [ReadStatus (fst (ServiceServerStatus env s2))])) = (r, (s', tr))"
            by (simp add: getCheck_def services_logged)
          show ?thesis
          proof (cases "fst (checkServicesServerStatus env s2)")
            case ok3: True
            with last m a p1 p2 Returns True ok2 t2 show ?thesis
              by (auto simp: StatusOK_def StatusInternalServerError_def)
          next
            case bad3: False
            with last m a p1 p2 Returns True ok2 t2 show ?thesis
              by (auto simp: StatusOK_def StatusInternalServerError_def)
          qed
        qed
      qed
    qed
  qed
qed

theorem getCheck_short_circuit_witness:
  "(\<exists>r s' tr.
      getCheck (logged_probe (stub_probe dial_table (\<lambda>c. Inr SERVING) ''OK'')) ((), []) = (r, (s', tr))
      \<and> r = Returns StatusOK)
   \<and> (\<exists>r s' tr.
      getCheck (logged_probe
          (stub_probe dial_table (\<lambda>c. if c = 1 then Inr NOT_SERVING else Inr SERVING) ''OK''))
        ((), []) = (r, (s', tr))
      \<and> r = Returns StatusInternalServerError
      \<and> dialled tr = [''mgr:50002''] \<and> status_reads tr = 0)
   \<and> (\<exists>r s' tr.
      getCheck (logged_probe
          (stub_probe dial_table (\<lambda>c. if c = 2 then Inl (LibError ''unavailable'') else Inr SERVING) ''OK''))
        ((), []) = (r, (s', tr))
      \<and> r = Returns StatusInternalServerError
      \<and> dialled tr = [''mgr:50002'', ''agent:50001''] \<and> status_reads tr = 0)
   \<and> (\<exists>r s' tr.
      getCheck (logged_probe (stub_probe dial_table (\<lambda>c. Inr SERVING) ''Stopped'')) ((), []) = (r, (s', tr))
      \<and> r = Returns StatusInternalServerError
      \<and> dialled tr = [''mgr:50002'', ''agent:50001''] \<and> status_reads tr = 1)"
proof -
  let ?A = "stub_probe dial_table (\<lambda>c. Inr SERVING) ''OK''"
  let ?B = "stub_probe dial_table (\<lambda>c. if c = 1 then Inr NOT_SERVING else Inr SERVING) ''OK''"
  let ?C = "stub_probe dial_table (\<lambda>c. if c = 2 then Inl (LibError ''unavailable'') else Inr SERVING) ''OK''"
  let ?D = "stub_probe dial_table (\<lambda>c. Inr SERVING) ''Stopped''"
  note defs = stub_defs checkInfraManagerLiveness_def checkCniServerLiveness_def
    checkServicesServerStatus_def checkGrpcServerStatus_def deferred_close_def
  obtain ra sa tra where a: "getCheck (logged_probe ?A) ((), []) = (ra, (sa, tra))"
    by (metis surj_pair)
  have "checkInfraManagerLiveness ?A () = (Returns True, ())
      \<and> checkCniServerLiveness ?A () = (Returns True, ())
      \<and> fst (checkServicesServerStatus ?A ())"
    by (simp add: defs)
  with getCheck_short_circuit [OF a] have ra: "ra = Returns StatusOK" by blast
  obtain rb sb trb where b: "getCheck (logged_probe ?B) ((), []) = (rb, (sb, trb))"
    by (metis surj_pair)
  have "checkInfraManagerLiveness ?B () = (Returns False, ())"
    by (simp add: defs)
  with getCheck_short_circuit [OF b]
  have rb: "rb = Returns StatusInternalServerError \<and> dialled trb = [manager_target ?B]
      \<and> status_reads trb = 0"
    by blast
  obtain rc sc trc where c: "getCheck (logged_probe ?C) ((), []) = (rc, (sc, trc))"
    by (metis surj_pair)
  have "checkInfraManagerLiveness ?C () = (Returns True, ())
      \<and> checkCniServerLiveness ?C () = (Returns False, ())"
    by (simp add: defs)
  with getCheck_short_circuit [OF c]
  have rc: "rc = Returns StatusInternalServerError
      \<and> dialled trc = [manager_target ?C, agent_target ?C] \<and> status_reads trc = 0"
    by blast
  obtain rd sd trd where d: "getCheck (logged_probe ?D) ((), []) = (rd, (sd, trd))"
    by (metis surj_pair)
  have "checkInfraManagerLiveness ?D () = (Returns True, ())
      \<and> checkCniServerLiveness ?D () = (Returns True, ())
      \<and> \<not> fst (checkServicesServerStatus ?D ())"
    by (simp add: defs)
  with getCheck_short_circuit [OF d]
  have rd: "rd = Returns StatusInternalServerError
      \<and> dialled trd = [manager_target ?D, agent_target ?D] \<and> status_reads trd = 1"
    by blast
  have targets: "manager_target ?B = ''mgr:50002''" "manager_target ?C = ''mgr:50002''"
    "agent_target ?C = ''agent:50001''" "manager_target ?D = ''mgr:50002''"
    "agent_target ?D = ''agent:50001''"
    by (simp_all add: stub_defs)
  from a ra b rb c rc d rd targets show ?thesis
    by (simp only:) blast
qed

section \<open>Properties of the migration\<close>

subsection \<open>Calls of the instrumented and of the simulated environment\<close>

lemma logged_fields [simp]:
  "ns_GetNS (logged_net env) p (s, tr) =
     (case ns_GetNS env p s of
        (Inl e, s1) \<Rightarrow> (Inl e, (s1, tr @ [(GetNS p, Failed e)]))
      | (Inr nn, s1) \<Rightarrow> (Inr nn, (s1, tr @ [(GetNS p, Done)])))"
  "ns_Fd (logged_net env) = ns_Fd env"
  "ns_enter (logged_net env) p (s, tr) =
     (case ns_enter env p s of (r, s1) \<Rightarrow> (r, (s1, tr @ [(EnterNetNS p, reply_of r)])))"
  "ns_leave (logged_net env) (s, tr) = (ns_leave env s, tr)"
  "netlink_LinkByName (logged_net env) nm (s, tr) =
     (case netlink_LinkByName env nm s of
        (Inl e, s1) \<Rightarrow> (Inl e, (s1, tr @ [(LinkByName nm, Failed e)]))
      | (Inr l, s1) \<Rightarrow> (Inr l, (s1, tr @ [(LinkByName nm, Found l)])))"
  "netlink_LinkSetDown (logged_net env) l (s, tr) =
     (case netlink_LinkSetDown env l s of (r, s1) \<Rightarrow> (r, (s1, tr @ [(LinkSetDown l, reply_of r)])))"
  "netlink_LinkSetMTU (logged_net env) l m (s, tr) =
     (case netlink_LinkSetMTU env l m s of (r, s1) \<Rightarrow> (r, (s1, tr @ [(LinkSetMTU l m, reply_of r)])))"
  "netlink_LinkSetNsFd (logged_net env) l fd (s, tr) =
     (case netlink_LinkSetNsFd env l fd s of (r, s1) \<Rightarrow> (r, (s1, tr @ [(LinkSetNsFd l fd, reply_of r)])))"
  "netlink_LinkSetName (logged_net env) l nm (s, tr) =
     (case netlink_LinkSetName env l nm s of (r, s1) \<Rightarrow> (r, (s1, tr @ [(LinkSetName l nm, reply_of r)])))"
  "netlink_LinkSetUp (logged_net env) l (s, tr) =
     (case netlink_LinkSetUp env l s of (r, s1) \<Rightarrow> (r, (s1, tr @ [(LinkSetUp l, reply_of r)])))"
  "netlink_AddrAdd (logged_net env) l a (s, tr) =
     (case netlink_AddrAdd env l a s of (r, s1) \<Rightarrow> (r, (s1, tr @ [(AddrAdd l a, reply_of r)])))"
  "netlink_RouteAdd (logged_net env) l rt (s, tr) =
     (case netlink_RouteAdd env l rt s of (r, s1) \<Rightarrow> (r, (s1, tr @ [(RouteAdd l rt, reply_of r)])))"
  "netconf_setLinkAddress (logged_net env) l ips (s, tr) =
     (case netconf_setLinkAddress env l ips s of
        (r, s1) \<Rightarrow> (r, (s1, tr @ [(SetLinkAddress l ips, reply_of r)])))"
  "netconf_setupPodRoute (logged_net env) l rs (s, tr) =
     (case netconf_setupPodRoute env l rs s of
        (r, s1) \<Rightarrow> (r, (s1, tr @ [(SetupPodRoute l rs, reply_of r)])))"
  "netconf_newNsError (logged_net env) = netconf_newNsError env"
  by (simp_all add: logged_net_def logging_def)

lemmas run_defs = DoSriovNetwork_def configureSriovNamespace_def WithNetNSPath_def reply_of_def


lemma sim_fields [simp]:
  "ns_GetNS (sim nss faults) p w =
     (if p \<in> set nss then (Inr p, w) else (Inl (LibError ''no such file or directory''), w))"
  "ns_Fd (sim nss faults) p = int (length p)"
  "ns_enter (sim nss faults) p w =
     (if p \<in> set nss \<and> ''WithNetNSPath'' \<notin> set faults then (None, w\<lparr>cur_ns := p\<rparr>)
      else (Some (LibError ''no such file or directory''), w))"
  "ns_leave (sim nss faults) w = w\<lparr>cur_ns := ''host''\<rparr>"
  "netlink_LinkByName (sim nss faults) nm w =
     (if l_name (dev w) = nm \<and> l_ns (dev w) = cur_ns w then (Inr (cur_ns w, nm), w)
      else (Inl (LibError ''Link not found''), w))"
  "netlink_LinkSetDown (sim nss faults) l = sim_set faults ''LinkSetDown'' (\<lambda>d. d\<lparr>l_up := False\<rparr>)"
  "netlink_LinkSetMTU (sim nss faults) l m = sim_set faults ''LinkSetMTU'' (\<lambda>d. d\<lparr>l_mtu := m\<rparr>)"
  "netlink_LinkSetNsFd (sim nss faults) l fd w =
     (case find (\<lambda>p. int (length p) = fd) nss of
        None \<Rightarrow> (Some (LibError ''bad file descriptor''), w)
      | Some p \<Rightarrow> sim_set faults ''LinkSetNsFd'' (\<lambda>d. d\<lparr>l_ns := p\<rparr>) w)"
  "netlink_LinkSetName (sim nss faults) l nm = sim_set faults ''LinkSetName'' (\<lambda>d. d\<lparr>l_name := nm\<rparr>)"
  "netlink_LinkSetUp (sim nss faults) l = sim_set faults ''LinkSetUp'' (\<lambda>d. d\<lparr>l_up := True\<rparr>)"
  "netlink_AddrAdd (sim nss faults) l a = sim_set faults a (\<lambda>d. d\<lparr>l_addrs := l_addrs d @ [a]\<rparr>)"
  "netlink_RouteAdd (sim nss faults) l r = sim_set faults r (\<lambda>d. d\<lparr>l_routes := l_routes d @ [r]\<rparr>)"
  "netconf_setLinkAddress (sim nss faults) l ips =
     sim_set faults ''setLinkAddress'' (\<lambda>d. d\<lparr>l_addrs := l_addrs d @ ips\<rparr>)"
  "netconf_setupPodRoute (sim nss faults) l rs =
     sim_set faults ''setupPodRoute'' (\<lambda>d. d\<lparr>l_routes := l_routes d @ rs\<rparr>)"
  "netconf_newNsError (sim nss faults) = NsError"
  by (simp_all add: sim_def)

lemmas sim_defs = sim_set_def eperm_def ns1_def host0_def req0_def res0_def

text \<open>
  The instrumented environment runs as the environment it wraps: the result and the
  state of a run are those of the run without the log.
\<close>

lemma logged_net_same_run:
  "case DoSriovNetwork (logged_net env) req res (s, tr) of
     (r, s', tr') \<Rightarrow> DoSriovNetwork env req res s = (r, s')"
proof (cases "Settings req")
  case None
  then show ?thesis
    by (simp add: DoSriovNetwork_def reply_of_def split: prod.split sum.split option.split)
next
  case (Some st)
  then show ?thesis
    by (cases "0 < Mtu st")
      (simp_all add: run_defs split: prod.split sum.split option.split)
qed

lemma logged_net_run:
  "DoSriovNetwork (logged_net env) req res (s, tr) = (r, (s', tr')) \<Longrightarrow>
   DoSriovNetwork env req res s = (r, s')"
  using logged_net_same_run [where env = env and req = req and res = res and s = s and tr = tr]
  by simp

text \<open>Two runs of the scenario on the simulated kernel: without a fault, and with
  \<^verbatim>\<open>LinkSetUp\<close> failing.\<close>

lemma sim_run_ok:
  "DoSriovNetwork (logged_net (sim [ns1] [])) req0 res0 (host0, []) =
   (Returns None,
    \<lparr>cur_ns = ''host'',
     dev = \<lparr>l_name = ''net1'', l_ns = ''/run/netns/ns1'', l_up = True, l_mtu = 1500,
          l_addrs = [''10.0.0.5/24'', ''10.0.0.6/24'', ''10.0.0.7/24''],
          l_routes = [''10.1.0.0/16'', ''default via 10.0.0.1'']\<rparr>\<rparr>,
  [(GetNS ''/run/netns/ns1'', Done),
   (LinkByName ''eth0'', Found (''host'', ''eth0'')),
   (LinkSetDown (''host'', ''eth0''), Done),
   (LinkSetMTU (''host'', ''eth0'') 1500, Done),
   (LinkSetNsFd (''host'', ''eth0'') 14, Done),
   (EnterNetNS ''/run/netns/ns1'', Done),
   (LinkSetName (''host'', ''eth0'') ''net1'', Done),
   (LinkByName ''net1'', Found (''/run/netns/ns1'', ''net1'')),
   (SetLinkAddress (''/run/netns/ns1'', ''net1'')
     [''10.0.0.5/24'', ''10.0.0.6/24'', ''10.0.0.7/24''], Done),
   (LinkSetUp (''/run/netns/ns1'', ''net1''), Done),
   (SetupPodRoute (''/run/netns/ns1'', ''net1'')
     [''10.1.0.0/16'', ''default via 10.0.0.1''], Done)])"
  by (simp add: run_defs sim_defs)

lemma sim_run_up_fails:
  "DoSriovNetwork (logged_net (sim [ns1] [''LinkSetUp''])) req0 res0 (host0, []) =
   (Returns (Some (NsError (Errorf ''cannot set link up'' (LibError ''operation not permitted'')))),
    \<lparr>cur_ns = ''host'',
     dev = \<lparr>l_name = ''net1'', l_ns = ''/run/netns/ns1'', l_up = False, l_mtu = 1500,
          l_addrs = [''10.0.0.5/24'', ''10.0.0.6/24'', ''10.0.0.7/24''],
          l_routes = []\<rparr>\<rparr>,
  [(GetNS ''/run/netns/ns1'', Done),
   (LinkByName ''eth0'', Found (''host'', ''eth0'')),
   (LinkSetDown (''host'', ''eth0''), Done),
   (LinkSetMTU (''host'', ''eth0'') 1500, Done),
   (LinkSetNsFd (''host'', ''eth0'') 14, Done),
   (EnterNetNS ''/run/netns/ns1'', Done),
   (LinkSetName (''host'', ''eth0'') ''net1'', Done),
   (LinkByName ''net1'', Found (''/run/netns/ns1'', ''net1'')),
   (SetLinkAddress (''/run/netns/ns1'', ''net1'')
     [''10.0.0.5/24'', ''10.0.0.6/24'', ''10.0.0.7/24''], Done),
   (LinkSetUp (''/run/netns/ns1'', ''net1''), Failed (LibError ''operation not permitted''))])"
  by (simp add: run_defs sim_defs)

subsection \<open>The order of the steps\<close>

lemma steps_in_order_aux:
  "case DoSriovNetwork (logged_net env) req res (s, []) of (r, s', tr) \<Rightarrow>
   \<exists>l fd l2. map fst tr = take (length tr) (migration_order req res l fd l2)
     \<and> list_all (\<lambda>(c, a). \<not> failed a) (butlast tr)
     \<and> ((\<exists>e. r = Returns (Some e)) \<longleftrightarrow> (tr \<noteq> [] \<and> failed (snd (last tr))))
     \<and> (r = Returns None \<longrightarrow> length tr = length (migration_order req res l fd l2))"
proof (cases "Settings req")
  case None
  then show ?thesis
    by (simp add: DoSriovNetwork_def migration_order_def reply_of_def
      split: prod.split sum.split option.split)
next
  case (Some st)
  then show ?thesis
    by (cases "0 < Mtu st")
      (simp_all add: run_defs migration_order_def split: prod.split sum.split option.split)
qed

text \<open>
  C1. The calls of a run are, in order, an initial segment of the fixed sequence
  resolve namespace, resolve the interface by its host name, set it down, set the
  MTU when it is positive, move, (enter the namespace,) rename, re-resolve by the
  new name, apply addresses, set up, install routes. No call but the last one of a
  run failed; the run returns an error exactly when its last call failed, and a run
  that returns nil made every call of the sequence.
\<close>

theorem DoSriovNetwork_steps_in_order:
  "DoSriovNetwork (logged_net env) req res (s, []) = (r, (s', tr)) \<Longrightarrow>
   \<exists>l fd l2. map fst tr = take (length tr) (migration_order req res l fd l2)
     \<and> list_all (\<lambda>(c, a). \<not> failed a) (butlast tr)
     \<and> ((\<exists>e. r = Returns (Some e)) \<longleftrightarrow> (tr \<noteq> [] \<and> failed (snd (last tr))))
     \<and> (r = Returns None \<longrightarrow> length tr = length (migration_order req res l fd l2))"
  using steps_in_order_aux [where env = env and req = req and res = res and s = s] by simp

theorem DoSriovNetwork_steps_in_order_witness:
  "(\<exists>s' tr. DoSriovNetwork (logged_net (sim [ns1] [])) req0 res0 (host0, []) = (Returns None, (s', tr))
      \<and> (\<exists>l fd l2. map fst tr = take (length tr) (migration_order req0 res0 l fd l2)
            \<and> list_all (\<lambda>(c, a). \<not> failed a) (butlast tr)
            \<and> length tr = length (migration_order req0 res0 l fd l2)))
   \<and> (\<exists>e s' tr. DoSriovNetwork (logged_net (sim [ns1] [''LinkSetUp''])) req0 res0 (host0, [])
          = (Returns (Some e), (s', tr))
      \<and> (\<exists>l fd l2. map fst tr = take (length tr) (migration_order req0 res0 l fd l2)
            \<and> list_all (\<lambda>(c, a). \<not> failed a) (butlast tr)
            \<and> failed (snd (last tr))))"
  using DoSriovNetwork_steps_in_order [OF sim_run_ok] DoSriovNetwork_steps_in_order [OF sim_run_up_fails]
    sim_run_ok sim_run_up_fails
  by blast

subsection \<open>More runs on the simulated kernel\<close>

lemma sim_run_down_fails:
  "DoSriovNetwork (logged_net (sim [ns1] [''LinkSetDown''])) req0 res0 (host0, []) =
   (Returns (Some (LibError ''operation not permitted'')), host0,
    [(GetNS ''/run/netns/ns1'', Done),
     (LinkByName ''eth0'', Found (''host'', ''eth0'')),
     (LinkSetDown (''host'', ''eth0''), Failed (LibError ''operation not permitted''))])"
  by (simp add: run_defs sim_defs)

lemma sim_run_mtu_fails:
  "DoSriovNetwork (logged_net (sim [ns1] [''LinkSetMTU''])) req0 res0 (host0, []) =
   (Returns (Some (LibError ''operation not permitted'')),
    host0 \<lparr> dev := (dev host0) \<lparr> l_up := False \<rparr> \<rparr>,
    [(GetNS ''/run/netns/ns1'', Done),
     (LinkByName ''eth0'', Found (''host'', ''eth0'')),
     (LinkSetDown (''host'', ''eth0''), Done),
     (LinkSetMTU (''host'', ''eth0'') 1500, Failed (LibError ''operation not permitted''))])"
  by (simp add: run_defs sim_defs)


lemma sim_run_no_mtu:
  "DoSriovNetwork (logged_net (sim [ns1] [])) req_no_mtu res0 (host0, []) =
   (Returns None,
    \<lparr>cur_ns = ''host'',
     dev = \<lparr>l_name = ''net1'', l_ns = ''/run/netns/ns1'', l_up = True, l_mtu = 9000,
          l_addrs = [''10.0.0.5/24'', ''10.0.0.6/24'', ''10.0.0.7/24''],
          l_routes = [''10.1.0.0/16'', ''default via 10.0.0.1'']\<rparr>\<rparr>,
  [(GetNS ''/run/netns/ns1'', Done),
   (LinkByName ''eth0'', Found (''host'', ''eth0'')),
   (LinkSetDown (''host'', ''eth0''), Done),
   (LinkSetNsFd (''host'', ''eth0'') 14, Done),
   (EnterNetNS ''/run/netns/ns1'', Done),
   (LinkSetName (''host'', ''eth0'') ''net1'', Done),
   (LinkByName ''net1'', Found (''/run/netns/ns1'', ''net1'')),
   (SetLinkAddress (''/run/netns/ns1'', ''net1'')
     [''10.0.0.5/24'', ''10.0.0.6/24'', ''10.0.0.7/24''], Done),
   (LinkSetUp (''/run/netns/ns1'', ''net1''), Done),
   (SetupPodRoute (''/run/netns/ns1'', ''net1'')
     [''10.1.0.0/16'', ''default via 10.0.0.1''], Done)])"
  by (simp add: run_defs sim_defs req_no_mtu_def)

lemma sim_only_set_mtu_changes:
  "only_set_mtu_changes (\<lambda>w. l_mtu (dev w)) (sim nss faults)"
  by (simp add: only_set_mtu_changes_def sim_set_def split: option.split)

subsection \<open>An unresolvable namespace\<close>

text \<open>
  C5. When \<^verbatim>\<open>ns.GetNS\<close> cannot resolve the target namespace, \<^verbatim>\<open>DoSriovNetwork\<close>
  returns the error of \<^verbatim>\<open>ns.GetNS\<close> itself and the state is the one that call left:
  the log of the run holds the failed resolution and no other call, so no call that
  changes the interface is made.
\<close>

theorem DoSriovNetwork_unresolvable_namespace:
  "ns_GetNS env (Netns req) s = (Inl e, s1) \<Longrightarrow>
     DoSriovNetwork env req res s = (Returns (Some e), s1) \<and>
     DoSriovNetwork (logged_net env) req res (s, []) =
       (Returns (Some e), (s1, [(GetNS (Netns req), Failed e)]))"
  by (simp add: DoSriovNetwork_def)

theorem DoSriovNetwork_unresolvable_namespace_witness:
  "ns_GetNS (sim [] []) (Netns req0) host0 = (Inl (LibError ''no such file or directory''), host0)
   \<and> DoSriovNetwork (sim [] []) req0 res0 host0 =
       (Returns (Some (LibError ''no such file or directory'')), host0)
   \<and> DoSriovNetwork (logged_net (sim [] [])) req0 res0 (host0, []) =
       (Returns (Some (LibError ''no such file or directory'')),
        (host0, [(GetNS (Netns req0), Failed (LibError ''no such file or directory''))]))"
proof -
  have unresolvable:
    "ns_GetNS (sim [] []) (Netns req0) host0 = (Inl (LibError ''no such file or directory''), host0)"
    by simp
  from unresolvable DoSriovNetwork_unresolvable_namespace [OF unresolvable]
  show ?thesis by blast
qed

subsection \<open>The rename\<close>




subsection \<open>Which handle a mutation goes through\<close>





subsection \<open>The error returned\<close>

text \<open>
  C4, as stated, fails: the error returned does not tell the step that failed. With
  \<^verbatim>\<open>LinkSetDown\<close> failing and with \<^verbatim>\<open>LinkSetMTU\<close> failing for the same reason,
  \<^verbatim>\<open>DoSriovNetwork\<close> returns the same value, the library's error as it came.
\<close>

theorem untyped_error_counterexample:
  "fst (DoSriovNetwork (logged_net (sim [ns1] [''LinkSetDown''])) req0 res0 (host0, []))
     = Returns (Some (LibError ''operation not permitted''))
   \<and> fst (DoSriovNetwork (logged_net (sim [ns1] [''LinkSetMTU''])) req0 res0 (host0, []))
     = Returns (Some (LibError ''operation not permitted''))
   \<and> last (snd (snd (DoSriovNetwork (logged_net (sim [ns1] [''LinkSetDown''])) req0 res0 (host0, []))))
     = (LinkSetDown (''host'', ''eth0''), Failed (LibError ''operation not permitted''))
   \<and> last (snd (snd (DoSriovNetwork (logged_net (sim [ns1] [''LinkSetMTU''])) req0 res0 (host0, []))))
     = (LinkSetMTU (''host'', ''eth0'') 1500, Failed (LibError ''operation not permitted''))"
  by (simp add: sim_run_down_fails sim_run_mtu_fails)

lemma surfaced_aux:
  "case DoSriovNetwork (logged_net env) req res (s, []) of (r, s', tr) \<Rightarrow>
     (\<forall>E. r = Returns (Some E) \<longrightarrow>
        (\<exists>c e. tr \<noteq> [] \<and> last tr = (c, Failed e)
           \<and> E = surfaced (netconf_newNsError env) (list_ex (\<lambda>x. is_enter (fst x)) tr) c e))"
proof (cases "Settings req")
  case None
  then show ?thesis
    by (simp add: DoSriovNetwork_def reply_of_def surfaced_def
        split: prod.split sum.split option.split)
next
  case (Some st)
  then show ?thesis
    by (cases "0 < Mtu st")
      (simp_all add: run_defs surfaced_def split: prod.split sum.split option.split)
qed

text \<open>
  C4, amended. A run that returns an error ended with a failed call, and the error
  returned is built from that call's error \<open>e\<close> alone: \<open>e\<close> itself when the call was
  made before \<^verbatim>\<open>ns.WithNetNSPath\<close>; otherwise \<^verbatim>\<open>newNsError\<close> applied to \<open>e\<close>, wrapped
  first by \<^verbatim>\<open>fmt.Errorf\<close> with the message of the step for the rename, the address
  step, the set-up and the route step, and not wrapped for the namespace entry and
  the second lookup.
\<close>

theorem returned_error_of_failing_call:
  "DoSriovNetwork (logged_net env) req res (s, []) = (Returns (Some E), (s', tr)) \<Longrightarrow>
   \<exists>c e. tr \<noteq> [] \<and> last tr = (c, Failed e)
      \<and> E = surfaced (netconf_newNsError env) (list_ex (\<lambda>x. is_enter (fst x)) tr) c e"
  using surfaced_aux [where env = env and req = req and res = res and s = s] by simp

theorem returned_error_of_failing_call_witness:
  "\<exists>E s' tr. DoSriovNetwork (logged_net (sim [ns1] [''LinkSetUp''])) req0 res0 (host0, [])
        = (Returns (Some E), (s', tr))
     \<and> E = NsError (Errorf ''cannot set link up'' (LibError ''operation not permitted''))
     \<and> (\<exists>c e. tr \<noteq> [] \<and> last tr = (c, Failed e)
          \<and> E = surfaced (netconf_newNsError (sim [ns1] [''LinkSetUp'']))
                  (list_ex (\<lambda>x. is_enter (fst x)) tr) c e)"
  using returned_error_of_failing_call [OF sim_run_up_fails] sim_run_up_fails by blast

subsection \<open>The MTU\<close>

lemma mtu_calls_aux:
  "case DoSriovNetwork (logged_net env) req res (s, []) of (r, s', tr) \<Rightarrow>
     ((\<forall>st. Settings req = Some st \<longrightarrow> Mtu st \<le> 0) \<longrightarrow>
        \<not> list_ex (\<lambda>x. is_set_mtu (fst x)) tr)
     \<and> (\<forall>st. Settings req = Some st \<and> 0 < Mtu st \<longrightarrow>
          (\<exists>l fd. take 5 (map fst tr) =
             take (length tr)
               [GetNS (Netns req), LinkByName (info_InterfaceName res), LinkSetDown l,
                LinkSetMTU l (Mtu st), LinkSetNsFd l fd])
          \<and> (\<forall>l. (LinkSetDown l, Done) \<in> set tr \<longrightarrow>
                (\<exists>a rest. drop 3 tr = (LinkSetMTU l (Mtu st), a) # rest))
          \<and> (\<forall>l fd a. (LinkSetNsFd l fd, a) \<in> set tr \<longrightarrow>
                (LinkSetMTU l (Mtu st), Done) \<in> set (before is_move tr)))"
proof (cases "Settings req")
  case None
  then show ?thesis
    by (simp add: DoSriovNetwork_def reply_of_def split: prod.split sum.split option.split)
next
  case (Some st)
  then show ?thesis
    by (cases "0 < Mtu st")
      (simp_all add: run_defs split: prod.split sum.split option.split)
qed

lemma mtu_applied_aux:
  assumes "ns_GetNS env (Netns req) s = (Inr nn, s1)"
    and "netlink_LinkByName env (info_InterfaceName res) s1 = (Inr l, s2)"
    and "netlink_LinkSetDown env l s2 = (None, s3)"
    and "netlink_LinkSetMTU env l (Mtu st) s3 = (a, s4)"
    and "Settings req = Some st" and "0 < Mtu st"
  shows "take 4 (snd (snd (DoSriovNetwork (logged_net env) req res (s, [])))) =
           [(GetNS (Netns req), Done), (LinkByName (info_InterfaceName res), Found l),
            (LinkSetDown l, Done), (LinkSetMTU l (Mtu st), reply_of a)]"
proof (cases a)
  case (Some e)
  with assms show ?thesis
    by (simp add: DoSriovNetwork_def reply_of_def)
next
  case None
  with assms show ?thesis
    by (simp add: run_defs split: prod.split sum.split option.split)
qed

lemma mtu_frame_aux:
  assumes "only_set_mtu_changes obs env"
    and "\<forall>st. Settings req = Some st \<longrightarrow> Mtu st \<le> 0"
  shows "obs (fst (snd (DoSriovNetwork (logged_net env) req res (s, tr)))) = obs s"
proof (cases "Settings req")
  case None
  with assms(1) show ?thesis
    by (simp add: DoSriovNetwork_def only_set_mtu_changes_def case_prod_beta
        split: sum.split option.split)
next
  case (Some st)
  with assms have "\<not> 0 < Mtu st" by auto
  with Some assms(1) show ?thesis
    by (simp add: run_defs only_set_mtu_changes_def case_prod_beta
        split: sum.split option.split)
qed

text \<open>
  C7. When the request has no positive MTU, the log of the run holds no
  \<^verbatim>\<open>LinkSetMTU\<close> call, and whatever no call but \<^verbatim>\<open>LinkSetMTU\<close> changes (the
  interface's MTU) is after the run what it was before. When the MTU is positive:
  a run whose set-down succeeded has \<^verbatim>\<open>LinkSetMTU\<close> with the requested MTU as its
  fourth call, through the same handle, and a run that reached the move made a
  \<^verbatim>\<open>LinkSetMTU\<close> that succeeded before it. And whenever the namespace resolution,
  the host lookup and the set-down succeed in the environment, the run does make
  that fourth call, on the state the set-down left and through the handle of the
  host lookup, with the reply the environment gives.
\<close>

theorem mtu_step_conditional:
  "DoSriovNetwork (logged_net env) req res (s, []) = (r, (s', tr)) \<Longrightarrow>
     ((\<forall>st. Settings req = Some st \<longrightarrow> Mtu st \<le> 0) \<longrightarrow>
        \<not> list_ex (\<lambda>x. is_set_mtu (fst x)) tr
        \<and> (only_set_mtu_changes obs env \<longrightarrow> obs s' = obs s))
     \<and> (\<forall>st. Settings req = Some st \<and> 0 < Mtu st \<longrightarrow>
          (\<exists>l fd. take 5 (map fst tr) =
             take (length tr)
               [GetNS (Netns req), LinkByName (info_InterfaceName res), LinkSetDown l,
                LinkSetMTU l (Mtu st), LinkSetNsFd l fd])
          \<and> (\<forall>l. (LinkSetDown l, Done) \<in> set tr \<longrightarrow>
                (\<exists>a rest. drop 3 tr = (LinkSetMTU l (Mtu st), a) # rest))
          \<and> (\<forall>l fd a. (LinkSetNsFd l fd, a) \<in> set tr \<longrightarrow>
                (LinkSetMTU l (Mtu st), Done) \<in> set (before is_move tr)))
     \<and> (\<forall>st nn s1 l s2 s3 a s4.
           Settings req = Some st \<and> 0 < Mtu st
           \<and> ns_GetNS env (Netns req) s = (Inr nn, s1)
           \<and> netlink_LinkByName env (info_InterfaceName res) s1 = (Inr l, s2)
           \<and> netlink_LinkSetDown env l s2 = (None, s3)
           \<and> netlink_LinkSetMTU env l (Mtu st) s3 = (a, s4) \<longrightarrow>
           take 4 tr =
             [(GetNS (Netns req), Done), (LinkByName (info_InterfaceName res), Found l),
              (LinkSetDown l, Done), (LinkSetMTU l (Mtu st), reply_of a)])"
proof -
  assume run: "DoSriovNetwork (logged_net env) req res (s, []) = (r, (s', tr))"
  have applied: "(\<forall>st nn s1 l s2 s3 a s4.
           Settings req = Some st \<and> 0 < Mtu st
           \<and> ns_GetNS env (Netns req) s = (Inr nn, s1)
           \<and> netlink_LinkByName env (info_InterfaceName res) s1 = (Inr l, s2)
           \<and> netlink_LinkSetDown env l s2 = (None, s3)
           \<and> netlink_LinkSetMTU env l (Mtu st) s3 = (a, s4) \<longrightarrow>
           take 4 tr =
             [(GetNS (Netns req), Done), (LinkByName (info_InterfaceName res), Found l),
              (LinkSetDown l, Done), (LinkSetMTU l (Mtu st), reply_of a)])"
  proof (intro allI impI, elim conjE)
    fix st nn s1 l s2 s3 a s4
    assume h: "Settings req = Some st" "0 < Mtu st"
      "ns_GetNS env (Netns req) s = (Inr nn, s1)"
      "netlink_LinkByName env (info_InterfaceName res) s1 = (Inr l, s2)"
      "netlink_LinkSetDown env l s2 = (None, s3)"
      "netlink_LinkSetMTU env l (Mtu st) s3 = (a, s4)"
    from mtu_applied_aux [OF h(3-6) h(1,2)] run
    show "take 4 tr =
             [(GetNS (Netns req), Done), (LinkByName (info_InterfaceName res), Found l),
              (LinkSetDown l, Done), (LinkSetMTU l (Mtu st), reply_of a)]"
      by simp
  qed
  from run
    mtu_calls_aux [where env = env and req = req and res = res and s = s]
    mtu_frame_aux [where env = env and req = req and res = res and s = s and obs = obs and tr = "[]"]
  have logged: "((\<forall>st. Settings req = Some st \<longrightarrow> Mtu st \<le> 0) \<longrightarrow>
        \<not> list_ex (\<lambda>x. is_set_mtu (fst x)) tr
        \<and> (only_set_mtu_changes obs env \<longrightarrow> obs s' = obs s))
     \<and> (\<forall>st. Settings req = Some st \<and> 0 < Mtu st \<longrightarrow>
          (\<exists>l fd. take 5 (map fst tr) =
             take (length tr)
               [GetNS (Netns req), LinkByName (info_InterfaceName res), LinkSetDown l,
                LinkSetMTU l (Mtu st), LinkSetNsFd l fd])
          \<and> (\<forall>l. (LinkSetDown l, Done) \<in> set tr \<longrightarrow>
                (\<exists>a rest. drop 3 tr = (LinkSetMTU l (Mtu st), a) # rest))
          \<and> (\<forall>l fd a. (LinkSetNsFd l fd, a) \<in> set tr \<longrightarrow>
                (LinkSetMTU l (Mtu st), Done) \<in> set (before is_move tr)))"
    by simp
  show ?thesis
    by (rule conjI [OF conjunct1 [OF logged] conjI [OF conjunct2 [OF logged] applied]])
qed

theorem mtu_step_conditional_witness:
  "(\<exists>r s' tr. DoSriovNetwork (logged_net (sim [ns1] [])) req_no_mtu res0 (host0, []) = (r, (s', tr))
      \<and> Settings req_no_mtu = Some \<lparr> Mtu = 0 \<rparr>
      \<and> only_set_mtu_changes (\<lambda>w. l_mtu (dev w)) (sim [ns1] [])
      \<and> \<not> list_ex (\<lambda>x. is_set_mtu (fst x)) tr
      \<and> (LinkSetNsFd (''host'', ''eth0'') 14, Done) \<in> set tr
      \<and> l_mtu (dev s') = l_mtu (dev host0))
   \<and> (\<exists>r s' tr. DoSriovNetwork (logged_net (sim [ns1] [])) req0 res0 (host0, []) = (r, (s', tr))
      \<and> Settings req0 = Some \<lparr> Mtu = 1500 \<rparr>
      \<and> ns_GetNS (sim [ns1] []) (Netns req0) host0 = (Inr ns1, host0)
      \<and> netlink_LinkByName (sim [ns1] []) (info_InterfaceName res0) host0
           = (Inr (''host'', ''eth0''), host0)
      \<and> netlink_LinkSetDown (sim [ns1] []) (''host'', ''eth0'') host0
           = (None, host0 \<lparr> dev := (dev host0) \<lparr> l_up := False \<rparr> \<rparr>)
      \<and> take 4 tr =
           [(GetNS (Netns req0), Done), (LinkByName (info_InterfaceName res0), Found (''host'', ''eth0'')),
            (LinkSetDown (''host'', ''eth0''), Done), (LinkSetMTU (''host'', ''eth0'') 1500, Done)]
      \<and> (LinkSetNsFd (''host'', ''eth0'') 14, Done) \<in> set tr
      \<and> (LinkSetMTU (''host'', ''eth0'') 1500, Done) \<in> set (before is_move tr)
      \<and> l_mtu (dev s') = 1500)"
proof -
  let ?down = "host0 \<lparr> dev := (dev host0) \<lparr> l_up := False \<rparr> \<rparr>"
  let ?st = "\<lparr> Mtu = 1500 \<rparr>"
  have none: "Settings req_no_mtu = Some \<lparr> Mtu = 0 \<rparr>"
    by (simp add: req_no_mtu_def)
  have some: "Settings req0 = Some ?st"
    by (simp add: req0_def)
  have positive: "0 < Mtu ?st"
    by simp
  have resolved: "ns_GetNS (sim [ns1] []) (Netns req0) host0 = (Inr ns1, host0)"
    by (simp add: req0_def)
  have found: "netlink_LinkByName (sim [ns1] []) (info_InterfaceName res0) host0
      = (Inr (''host'', ''eth0''), host0)"
    by (simp add: res0_def host0_def)
  have down: "netlink_LinkSetDown (sim [ns1] []) (''host'', ''eth0'') host0 = (None, ?down)"
    by (simp add: sim_set_def)
  have applied: "netlink_LinkSetMTU (sim [ns1] []) (''host'', ''eth0'') (Mtu ?st) ?down
      = (None, ?down \<lparr> dev := (dev ?down) \<lparr> l_mtu := 1500 \<rparr> \<rparr>)"
    by (simp add: sim_set_def)
  note zero_run = mtu_step_conditional [OF sim_run_no_mtu, of "\<lambda>w. l_mtu (dev w)", THEN conjunct1]
  from zero_run none sim_only_set_mtu_changes [of "[ns1]" "[]"]
  have a: "\<not> list_ex (\<lambda>x. is_set_mtu (fst x))
             (snd (snd (DoSriovNetwork (logged_net (sim [ns1] [])) req_no_mtu res0 (host0, []))))
           \<and> (LinkSetNsFd (''host'', ''eth0'') 14, Done)
             \<in> set (snd (snd (DoSriovNetwork (logged_net (sim [ns1] [])) req_no_mtu res0 (host0, []))))
           \<and> l_mtu (dev (fst (snd (DoSriovNetwork (logged_net (sim [ns1] [])) req_no_mtu res0 (host0, [])))))
             = l_mtu (dev host0)"
    by (simp add: sim_run_no_mtu)
  then have a': "\<exists>r s' tr. DoSriovNetwork (logged_net (sim [ns1] [])) req_no_mtu res0 (host0, []) = (r, (s', tr))
      \<and> Settings req_no_mtu = Some \<lparr> Mtu = 0 \<rparr>
      \<and> only_set_mtu_changes (\<lambda>w. l_mtu (dev w)) (sim [ns1] [])
      \<and> \<not> list_ex (\<lambda>x. is_set_mtu (fst x)) tr
      \<and> (LinkSetNsFd (''host'', ''eth0'') 14, Done) \<in> set tr
      \<and> l_mtu (dev s') = l_mtu (dev host0)"
    using none sim_only_set_mtu_changes [of "[ns1]" "[]"] by (metis prod.collapse)
  have moved:
    "(LinkSetNsFd (''host'', ''eth0'') 14, Done)
       \<in> set (snd (snd (DoSriovNetwork (logged_net (sim [ns1] [])) req0 res0 (host0, []))))
     \<and> l_mtu (dev (fst (snd (DoSriovNetwork (logged_net (sim [ns1] [])) req0 res0 (host0, []))))) = 1500"
    by (simp add: sim_run_ok)
  obtain r s' tr where run:
    "DoSriovNetwork (logged_net (sim [ns1] [])) req0 res0 (host0, []) = (r, (s', tr))"
    by (metis surj_pair)
  from moved run have moved': "(LinkSetNsFd (''host'', ''eth0'') 14, Done) \<in> set tr"
    "l_mtu (dev s') = 1500"
    by simp_all
  note positive_run = mtu_step_conditional [OF run, of "\<lambda>w. l_mtu (dev w)", THEN conjunct2]
  have "take 4 tr =
           [(GetNS (Netns req0), Done), (LinkByName (info_InterfaceName res0), Found (''host'', ''eth0'')),
            (LinkSetDown (''host'', ''eth0''), Done),
            (LinkSetMTU (''host'', ''eth0'') (Mtu ?st), reply_of None)]"
    by (rule positive_run [THEN conjunct2, rule_format])
      (intro conjI, rule some, rule positive, rule resolved, rule found, rule down, rule applied)
  then have b1: "take 4 tr =
           [(GetNS (Netns req0), Done), (LinkByName (info_InterfaceName res0), Found (''host'', ''eth0'')),
            (LinkSetDown (''host'', ''eth0''), Done), (LinkSetMTU (''host'', ''eth0'') 1500, Done)]"
    by (simp add: reply_of_def)
  have "(LinkSetMTU (''host'', ''eth0'') (Mtu ?st), Done) \<in> set (before is_move tr)"
    by (rule positive_run [THEN conjunct1, rule_format, THEN conjunct2, THEN conjunct2, rule_format])
      (intro conjI, rule some, rule positive, rule moved'(1))
  then have b2: "(LinkSetMTU (''host'', ''eth0'') 1500, Done) \<in> set (before is_move tr)"
    by simp
  have "DoSriovNetwork (logged_net (sim [ns1] [])) req0 res0 (host0, []) = (r, (s', tr))
      \<and> Settings req0 = Some \<lparr> Mtu = 1500 \<rparr>
      \<and> ns_GetNS (sim [ns1] []) (Netns req0) host0 = (Inr ns1, host0)
      \<and> netlink_LinkByName (sim [ns1] []) (info_InterfaceName res0) host0
           = (Inr (''host'', ''eth0''), host0)
      \<and> netlink_LinkSetDown (sim [ns1] []) (''host'', ''eth0'') host0 = (None, ?down)
      \<and> take 4 tr =
           [(GetNS (Netns req0), Done), (LinkByName (info_InterfaceName res0), Found (''host'', ''eth0'')),
            (LinkSetDown (''host'', ''eth0''), Done), (LinkSetMTU (''host'', ''eth0'') 1500, Done)]
      \<and> (LinkSetNsFd (''host'', ''eth0'') 14, Done) \<in> set tr
      \<and> (LinkSetMTU (''host'', ''eth0'') 1500, Done) \<in> set (before is_move tr)
      \<and> l_mtu (dev s') = 1500"
    by (intro conjI run some resolved found down b1 b2 moved')
  then have b': "\<exists>r s' tr. DoSriovNetwork (logged_net (sim [ns1] [])) req0 res0 (host0, []) = (r, (s', tr))
      \<and> Settings req0 = Some \<lparr> Mtu = 1500 \<rparr>
      \<and> ns_GetNS (sim [ns1] []) (Netns req0) host0 = (Inr ns1, host0)
      \<and> netlink_LinkByName (sim [ns1] []) (info_InterfaceName res0) host0
           = (Inr (''host'', ''eth0''), host0)
      \<and> netlink_LinkSetDown (sim [ns1] []) (''host'', ''eth0'') host0 = (None, ?down)
      \<and> take 4 tr =
           [(GetNS (Netns req0), Done), (LinkByName (info_InterfaceName res0), Found (''host'', ''eth0'')),
            (LinkSetDown (''host'', ''eth0''), Done), (LinkSetMTU (''host'', ''eth0'') 1500, Done)]
      \<and> (LinkSetNsFd (''host'', ''eth0'') 14, Done) \<in> set tr
      \<and> (LinkSetMTU (''host'', ''eth0'') 1500, Done) \<in> set (before is_move tr)
      \<and> l_mtu (dev s') = 1500"
    by (intro exI)
  from a' b' show ?thesis by (rule conjI)
qed

subsection \<open>The address and route entries\<close>

lemma with_loops_fields [simp]:
  "netconf_setLinkAddress (with_loops env) = setLinkAddress env"
  "netconf_setupPodRoute (with_loops env) = setupPodRoute env"
  "ns_enter (with_loops env) = ns_enter env"
  "ns_leave (with_loops env) = ns_leave env"
  "netlink_LinkByName (with_loops env) = netlink_LinkByName env"
  "netlink_LinkSetName (with_loops env) = netlink_LinkSetName env"
  "netlink_LinkSetUp (with_loops env) = netlink_LinkSetUp env"
  by (simp_all add: with_loops_def)

lemma addr_loop_log:
  "setLinkAddress_from (logged_net env) l i ips (s, tr) = (r, (s', tr')) \<Longrightarrow>
     (r = None \<and> tr' = tr @ map (\<lambda>a. (AddrAdd l a, Done)) ips)
     \<or> (\<exists>k e. k < length ips \<and> r = Some (AddressAssignmentError (i + k) e)
           \<and> tr' = tr @ map (\<lambda>a. (AddrAdd l a, Done)) (take k ips)
                      @ [(AddrAdd l (ips ! k), Failed e)])"
proof (induction ips arbitrary: i s tr)
  case Nil
  then show ?case by simp
next
  case (Cons a ips)
  obtain r1 s1 where step: "netlink_AddrAdd env l a s = (r1, s1)"
    by (metis surj_pair)
  show ?case
  proof (cases r1)
    case None
    with step Cons.prems
    have "setLinkAddress_from (logged_net env) l (Suc i) ips (s1, tr @ [(AddrAdd l a, Done)])
            = (r, (s', tr'))"
      by (simp add: reply_of_def)
    from Cons.IH [OF this] show ?thesis
    proof
      assume "r = None \<and> tr' = (tr @ [(AddrAdd l a, Done)]) @ map (\<lambda>a. (AddrAdd l a, Done)) ips"
      then show ?thesis by simp
    next
      assume "\<exists>k e. k < length ips \<and> r = Some (AddressAssignmentError (Suc i + k) e)
           \<and> tr' = (tr @ [(AddrAdd l a, Done)]) @ map (\<lambda>a. (AddrAdd l a, Done)) (take k ips)
                      @ [(AddrAdd l (ips ! k), Failed e)]"
      then obtain k e where k: "k < length ips" "r = Some (AddressAssignmentError (Suc i + k) e)"
        "tr' = (tr @ [(AddrAdd l a, Done)]) @ map (\<lambda>a. (AddrAdd l a, Done)) (take k ips)
                      @ [(AddrAdd l (ips ! k), Failed e)]"
        by blast
      have "Suc k < length (a # ips) \<and> r = Some (AddressAssignmentError (i + Suc k) e)
          \<and> tr' = tr @ map (\<lambda>a. (AddrAdd l a, Done)) (take (Suc k) (a # ips))
                      @ [(AddrAdd l ((a # ips) ! Suc k), Failed e)]"
        using k by simp
      then show ?thesis by blast
    qed
  next
    case (Some e)
    with step Cons.prems
    have "0 < length (a # ips) \<and> r = Some (AddressAssignmentError (i + 0) e)
        \<and> tr' = tr @ map (\<lambda>a. (AddrAdd l a, Done)) (take 0 (a # ips))
                    @ [(AddrAdd l ((a # ips) ! 0), Failed e)]"
      by (simp add: reply_of_def)
    then show ?thesis by blast
  qed
qed


lemma route_loop_log:
  "setupPodRoute_from (logged_net env) l i rts (s, tr) = (r, (s', tr')) \<Longrightarrow>
     (r = None \<and> tr' = tr @ map (\<lambda>a. (RouteAdd l a, Done)) rts)
     \<or> (\<exists>k e. k < length rts \<and> r = Some (RouteInstallError (i + k) e)
           \<and> tr' = tr @ map (\<lambda>a. (RouteAdd l a, Done)) (take k rts)
                      @ [(RouteAdd l (rts ! k), Failed e)])"
proof (induction rts arbitrary: i s tr)
  case Nil
  then show ?case by simp
next
  case (Cons a rts)
  obtain r1 s1 where step: "netlink_RouteAdd env l a s = (r1, s1)"
    by (metis surj_pair)
  show ?case
  proof (cases r1)
    case None
    with step Cons.prems
    have "setupPodRoute_from (logged_net env) l (Suc i) rts (s1, tr @ [(RouteAdd l a, Done)])
            = (r, (s', tr'))"
      by (simp add: reply_of_def)
    from Cons.IH [OF this] show ?thesis
    proof
      assume "r = None \<and> tr' = (tr @ [(RouteAdd l a, Done)]) @ map (\<lambda>a. (RouteAdd l a, Done)) rts"
      then show ?thesis by simp
    next
      assume "\<exists>k e. k < length rts \<and> r = Some (RouteInstallError (Suc i + k) e)
           \<and> tr' = (tr @ [(RouteAdd l a, Done)]) @ map (\<lambda>a. (RouteAdd l a, Done)) (take k rts)
                      @ [(RouteAdd l (rts ! k), Failed e)]"
      then obtain k e where k: "k < length rts" "r = Some (RouteInstallError (Suc i + k) e)"
        "tr' = (tr @ [(RouteAdd l a, Done)]) @ map (\<lambda>a. (RouteAdd l a, Done)) (take k rts)
                      @ [(RouteAdd l (rts ! k), Failed e)]"
        by blast
      have "Suc k < length (a # rts) \<and> r = Some (RouteInstallError (i + Suc k) e)
          \<and> tr' = tr @ map (\<lambda>a. (RouteAdd l a, Done)) (take (Suc k) (a # rts))
                      @ [(RouteAdd l ((a # rts) ! Suc k), Failed e)]"
        using k by simp
      then show ?thesis by blast
    qed
  next
    case (Some e)
    with step Cons.prems
    have "0 < length (a # rts) \<and> r = Some (RouteInstallError (i + 0) e)
        \<and> tr' = tr @ map (\<lambda>a. (RouteAdd l a, Done)) (take 0 (a # rts))
                    @ [(RouteAdd l ((a # rts) ! 0), Failed e)]"
      by (simp add: reply_of_def)
    then show ?thesis by blast
  qed
qed

lemma addr_loop_log0:
  "setLinkAddress (logged_net env) l ips (s, tr) = (r, (s', tr')) \<Longrightarrow>
     (r = None \<and> tr' = tr @ map (\<lambda>a. (AddrAdd l a, Done)) ips)
     \<or> (\<exists>k e. k < length ips \<and> r = Some (AddressAssignmentError k e)
           \<and> tr' = tr @ map (\<lambda>a. (AddrAdd l a, Done)) (take k ips)
                      @ [(AddrAdd l (ips ! k), Failed e)])"
  using addr_loop_log [of env l 0 ips s tr r s' tr'] by (simp add: setLinkAddress_def)

lemma route_loop_log0:
  "setupPodRoute (logged_net env) l rts (s, tr) = (r, (s', tr')) \<Longrightarrow>
     (r = None \<and> tr' = tr @ map (\<lambda>a. (RouteAdd l a, Done)) rts)
     \<or> (\<exists>k e. k < length rts \<and> r = Some (RouteInstallError k e)
           \<and> tr' = tr @ map (\<lambda>a. (RouteAdd l a, Done)) (take k rts)
                      @ [(RouteAdd l (rts ! k), Failed e)])"
  using route_loop_log [of env l 0 rts s tr r s' tr'] by (simp add: setupPodRoute_def)


lemma configure_cases:
  assumes run:
    "configureSriovNamespace (with_loops (logged_net env)) req linkObj (s, []) = (r, (s', tr))"
  obtains
    (enter_fails) e where
      "r = Some e" "tr = [(EnterNetNS (Netns req), Failed e)]"
  | (rename_fails) e where
      "r = Some (Errorf ''cannot set link name'' e)"
      "tr = [(EnterNetNS (Netns req), Done), (LinkSetName linkObj (InterfaceName req), Failed e)]"
  | (lookup_fails) e where
      "r = Some e"
      "tr = [(EnterNetNS (Netns req), Done), (LinkSetName linkObj (InterfaceName req), Done),
             (LinkByName (InterfaceName req), Failed e)]"
  | (address_fails) l i e where
      "i < length (ContainerIps req)"
      "r = Some (Errorf ''cannot set link address'' (AddressAssignmentError i e))"
      "tr = [(EnterNetNS (Netns req), Done), (LinkSetName linkObj (InterfaceName req), Done),
             (LinkByName (InterfaceName req), Found l)]
            @ map (\<lambda>a. (AddrAdd l a, Done)) (take i (ContainerIps req))
            @ [(AddrAdd l (ContainerIps req ! i), Failed e)]"
  | (up_fails) l e where
      "r = Some (Errorf ''cannot set link up'' e)"
      "tr = [(EnterNetNS (Netns req), Done), (LinkSetName linkObj (InterfaceName req), Done),
             (LinkByName (InterfaceName req), Found l)]
            @ map (\<lambda>a. (AddrAdd l a, Done)) (ContainerIps req)
            @ [(LinkSetUp l, Failed e)]"
  | (route_fails) l i e where
      "i < length (ContainerRoutes req)"
      "r = Some (Errorf ''cannot setup routes'' (RouteInstallError i e))"
      "tr = [(EnterNetNS (Netns req), Done), (LinkSetName linkObj (InterfaceName req), Done),
             (LinkByName (InterfaceName req), Found l)]
            @ map (\<lambda>a. (AddrAdd l a, Done)) (ContainerIps req)
            @ [(LinkSetUp l, Done)]
            @ map (\<lambda>a. (RouteAdd l a, Done)) (take i (ContainerRoutes req))
            @ [(RouteAdd l (ContainerRoutes req ! i), Failed e)]"
  | (completed) l where
      "r = None"
      "tr = [(EnterNetNS (Netns req), Done), (LinkSetName linkObj (InterfaceName req), Done),
             (LinkByName (InterfaceName req), Found l)]
            @ map (\<lambda>a. (AddrAdd l a, Done)) (ContainerIps req)
            @ [(LinkSetUp l, Done)]
            @ map (\<lambda>a. (RouteAdd l a, Done)) (ContainerRoutes req)"
proof -
  note defs = configureSriovNamespace_def WithNetNSPath_def reply_of_def
  obtain r1 s1 where a1: "ns_enter env (Netns req) s = (r1, s1)"
    by (metis surj_pair)
  show ?thesis
  proof (cases r1)
    case (Some e)
    with a1 run show ?thesis by (intro enter_fails [of e]) (simp_all add: defs)
  next
    case entered: None
    obtain r2 s2 where a2: "netlink_LinkSetName env linkObj (InterfaceName req) s1 = (r2, s2)"
      by (metis surj_pair)
    show ?thesis
    proof (cases r2)
      case (Some e)
      with a1 a2 entered run show ?thesis by (intro rename_fails [of e]) (simp_all add: defs)
    next
      case renamed: None
      obtain r3 s3 where a3: "netlink_LinkByName env (InterfaceName req) s2 = (r3, s3)"
        by (metis surj_pair)
      show ?thesis
      proof (cases r3)
        case (Inl e)
        with a1 a2 a3 entered renamed run show ?thesis
          by (intro lookup_fails [of e]) (simp_all add: defs)
      next
        case (Inr l)
        let ?tr3 = "[(EnterNetNS (Netns req), Done),
                     (LinkSetName linkObj (InterfaceName req), Done),
                     (LinkByName (InterfaceName req), Found l)]"
        obtain r4 s4 tr4 where
          a4: "setLinkAddress (logged_net env) l (ContainerIps req) (s3, ?tr3) = (r4, (s4, tr4))"
          by (metis surj_pair)
        from addr_loop_log0 [OF a4] show ?thesis
        proof (elim disjE exE conjE)
          fix k e
          assume "k < length (ContainerIps req)" "r4 = Some (AddressAssignmentError k e)"
            "tr4 = ?tr3 @ map (\<lambda>a. (AddrAdd l a, Done)) (take k (ContainerIps req))
                   @ [(AddrAdd l (ContainerIps req ! k), Failed e)]"
          with a1 a2 a3 a4 entered renamed Inr run show ?thesis
            by (intro address_fails [of k e l]) (simp_all add: defs)
        next
          assume ok4: "r4 = None"
            "tr4 = ?tr3 @ map (\<lambda>a. (AddrAdd l a, Done)) (ContainerIps req)"
          obtain r5 s5 where a5: "netlink_LinkSetUp env l s4 = (r5, s5)"
            by (metis surj_pair)
          show ?thesis
          proof (cases r5)
            case (Some e)
            with a1 a2 a3 a4 a5 ok4 entered renamed Inr run show ?thesis
              by (intro up_fails [of e l]) (simp_all add: defs)
          next
            case up: None
            let ?tr5 = "tr4 @ [(LinkSetUp l, Done)]"
            obtain r6 s6 tr6 where
              a6: "setupPodRoute (logged_net env) l (ContainerRoutes req) (s5, ?tr5) = (r6, (s6, tr6))"
              by (metis surj_pair)
            from route_loop_log0 [OF a6] show ?thesis
            proof (elim disjE exE conjE)
              fix k e
              assume "k < length (ContainerRoutes req)" "r6 = Some (RouteInstallError k e)"
                "tr6 = ?tr5 @ map (\<lambda>a. (RouteAdd l a, Done)) (take k (ContainerRoutes req))
                       @ [(RouteAdd l (ContainerRoutes req ! k), Failed e)]"
              with a1 a2 a3 a4 a5 a6 ok4 up entered renamed Inr run show ?thesis
                by (intro route_fails [of k e l]) (simp_all add: defs)
            next
              assume "r6 = None"
                "tr6 = ?tr5 @ map (\<lambda>a. (RouteAdd l a, Done)) (ContainerRoutes req)"
              with a1 a2 a3 a4 a5 a6 ok4 up entered renamed Inr run show ?thesis
                by (intro completed [of l]) (simp_all add: defs)
            qed
          qed
        qed
      qed
    qed
  qed
qed


lemma filter_loop_entries [simp]:
  "filter (\<lambda>x. is_addr_add (fst x)) (map (\<lambda>a. (AddrAdd l a, d)) xs) = map (\<lambda>a. (AddrAdd l a, d)) xs"
  "filter (\<lambda>x. is_route_add (fst x)) (map (\<lambda>a. (AddrAdd l a, d)) xs) = []"
  "filter (\<lambda>x. is_route_add (fst x)) (map (\<lambda>a. (RouteAdd l a, d)) xs) = map (\<lambda>a. (RouteAdd l a, d)) xs"
  "filter (\<lambda>x. is_addr_add (fst x)) (map (\<lambda>a. (RouteAdd l a, d)) xs) = []"
  by (induction xs) simp_all

text \<open>Two runs of \<^verbatim>\<open>configureSriovNamespace\<close> on the simulated kernel with the loops:
  the second address fails, and the second route fails.\<close>

lemma sim_configure_address_fails:
  "configureSriovNamespace (with_loops (logged_net (sim [ns1] [''10.0.0.6/24''])))
     req0 (''host'', ''eth0'') (moved0, []) =
   (Some (Errorf ''cannot set link address''
       (AddressAssignmentError 1 (LibError ''operation not permitted''))),
    \<lparr>cur_ns = ''host'',
     dev = \<lparr>l_name = ''net1'', l_ns = ''/run/netns/ns1'', l_up = False, l_mtu = 1500,
          l_addrs = [''10.0.0.5/24''], l_routes = []\<rparr>\<rparr>,
    [(EnterNetNS ''/run/netns/ns1'', Done),
     (LinkSetName (''host'', ''eth0'') ''net1'', Done),
     (LinkByName ''net1'', Found (''/run/netns/ns1'', ''net1'')),
     (AddrAdd (''/run/netns/ns1'', ''net1'') ''10.0.0.5/24'', Done),
     (AddrAdd (''/run/netns/ns1'', ''net1'') ''10.0.0.6/24'',
        Failed (LibError ''operation not permitted''))])"
  by (simp add: run_defs sim_defs moved0_def setLinkAddress_def)

lemma sim_configure_route_fails:
  "configureSriovNamespace (with_loops (logged_net (sim [ns1] [''default via 10.0.0.1''])))
     req0 (''host'', ''eth0'') (moved0, []) =
   (Some (Errorf ''cannot setup routes''
       (RouteInstallError 1 (LibError ''operation not permitted''))),
    \<lparr>cur_ns = ''host'',
     dev = \<lparr>l_name = ''net1'', l_ns = ''/run/netns/ns1'', l_up = True, l_mtu = 1500,
          l_addrs = [''10.0.0.5/24'', ''10.0.0.6/24'', ''10.0.0.7/24''],
          l_routes = [''10.1.0.0/16'']\<rparr>\<rparr>,
    [(EnterNetNS ''/run/netns/ns1'', Done),
     (LinkSetName (''host'', ''eth0'') ''net1'', Done),
     (LinkByName ''net1'', Found (''/run/netns/ns1'', ''net1'')),
     (AddrAdd (''/run/netns/ns1'', ''net1'') ''10.0.0.5/24'', Done),
     (AddrAdd (''/run/netns/ns1'', ''net1'') ''10.0.0.6/24'', Done),
     (AddrAdd (''/run/netns/ns1'', ''net1'') ''10.0.0.7/24'', Done),
     (LinkSetUp (''/run/netns/ns1'', ''net1''), Done),
     (RouteAdd (''/run/netns/ns1'', ''net1'') ''10.1.0.0/16'', Done),
     (RouteAdd (''/run/netns/ns1'', ''net1'') ''default via 10.0.0.1'',
        Failed (LibError ''operation not permitted''))])"
  by (simp add: run_defs sim_defs moved0_def setLinkAddress_def setupPodRoute_def)

text \<open>
  C6. With the two loops modelled from the specification, in every run of
  \<^verbatim>\<open>configureSriovNamespace\<close>: when an \<^verbatim>\<open>AddrAdd\<close> failed, it is the entry at some
  index \<open>i\<close> of \<^verbatim>\<open>in.ContainerIps\<close>, the \<^verbatim>\<open>AddrAdd\<close> calls of the run are the entries
  before \<open>i\<close>, each applied, in list order, then entry \<open>i\<close> and none after it, no route
  was attempted, and the error returned wraps the error that carries \<open>i\<close>. Likewise for
  a failed \<^verbatim>\<open>RouteAdd\<close>, all addresses having been applied. A run that returns nil
  applied every address and every route, in list order.
\<close>

theorem entries_in_list_order:
  assumes "configureSriovNamespace (with_loops (logged_net env)) req linkObj (s, []) = (r, (s', tr))"
  shows
   "(\<forall>l a e. (AddrAdd l a, Failed e) \<in> set tr \<longrightarrow>
      (\<exists>i. i < length (ContainerIps req) \<and> a = ContainerIps req ! i
         \<and> r = Some (Errorf ''cannot set link address'' (AddressAssignmentError i e))
         \<and> filter (\<lambda>x. is_addr_add (fst x)) tr =
             map (\<lambda>a. (AddrAdd l a, Done)) (take i (ContainerIps req)) @ [(AddrAdd l a, Failed e)]
         \<and> filter (\<lambda>x. is_route_add (fst x)) tr = []))
    \<and> (\<forall>l a e. (RouteAdd l a, Failed e) \<in> set tr \<longrightarrow>
      (\<exists>i. i < length (ContainerRoutes req) \<and> a = ContainerRoutes req ! i
         \<and> r = Some (Errorf ''cannot setup routes'' (RouteInstallError i e))
         \<and> filter (\<lambda>x. is_route_add (fst x)) tr =
             map (\<lambda>a. (RouteAdd l a, Done)) (take i (ContainerRoutes req)) @ [(RouteAdd l a, Failed e)]
         \<and> filter (\<lambda>x. is_addr_add (fst x)) tr =
             map (\<lambda>a. (AddrAdd l a, Done)) (ContainerIps req)))
    \<and> (r = None \<longrightarrow>
      (\<exists>l. filter (\<lambda>x. is_addr_add (fst x)) tr = map (\<lambda>a. (AddrAdd l a, Done)) (ContainerIps req)
         \<and> filter (\<lambda>x. is_route_add (fst x)) tr = map (\<lambda>a. (RouteAdd l a, Done)) (ContainerRoutes req)))"
  using assms
proof (cases rule: configure_cases)
  case (enter_fails e)
  then show ?thesis by simp
next
  case (rename_fails e)
  then show ?thesis by simp
next
  case (lookup_fails e)
  then show ?thesis by simp
next
  case (address_fails l i e)
  then show ?thesis by auto
next
  case (up_fails l e)
  then show ?thesis by auto
next
  case (route_fails l i e)
  then show ?thesis by auto
next
  case (completed l)
  then show ?thesis by auto
qed

theorem entries_in_list_order_witness:
  "(\<exists>r s' tr.
      configureSriovNamespace (with_loops (logged_net (sim [ns1] [''10.0.0.6/24''])))
        req0 (''host'', ''eth0'') (moved0, []) = (r, (s', tr))
      \<and> (AddrAdd (''/run/netns/ns1'', ''net1'') ''10.0.0.6/24'',
            Failed (LibError ''operation not permitted'')) \<in> set tr
      \<and> r = Some (Errorf ''cannot set link address''
                    (AddressAssignmentError 1 (LibError ''operation not permitted'')))
      \<and> (\<exists>i. i < length (ContainerIps req0) \<and> ''10.0.0.6/24'' = ContainerIps req0 ! i
            \<and> r = Some (Errorf ''cannot set link address''
                          (AddressAssignmentError i (LibError ''operation not permitted'')))
            \<and> filter (\<lambda>x. is_addr_add (fst x)) tr =
                 map (\<lambda>a. (AddrAdd (''/run/netns/ns1'', ''net1'') a, Done)) (take i (ContainerIps req0))
                 @ [(AddrAdd (''/run/netns/ns1'', ''net1'') ''10.0.0.6/24'',
                     Failed (LibError ''operation not permitted''))]
            \<and> filter (\<lambda>x. is_route_add (fst x)) tr = []))
   \<and> (\<exists>r s' tr.
      configureSriovNamespace (with_loops (logged_net (sim [ns1] [''default via 10.0.0.1''])))
        req0 (''host'', ''eth0'') (moved0, []) = (r, (s', tr))
      \<and> (RouteAdd (''/run/netns/ns1'', ''net1'') ''default via 10.0.0.1'',
            Failed (LibError ''operation not permitted'')) \<in> set tr
      \<and> r = Some (Errorf ''cannot setup routes''
                    (RouteInstallError 1 (LibError ''operation not permitted'')))
      \<and> (\<exists>i. i < length (ContainerRoutes req0) \<and> ''default via 10.0.0.1'' = ContainerRoutes req0 ! i
            \<and> r = Some (Errorf ''cannot setup routes''
                          (RouteInstallError i (LibError ''operation not permitted'')))
            \<and> filter (\<lambda>x. is_route_add (fst x)) tr =
                 map (\<lambda>a. (RouteAdd (''/run/netns/ns1'', ''net1'') a, Done))
                   (take i (ContainerRoutes req0))
                 @ [(RouteAdd (''/run/netns/ns1'', ''net1'') ''default via 10.0.0.1'',
                     Failed (LibError ''operation not permitted''))]
            \<and> filter (\<lambda>x. is_addr_add (fst x)) tr =
                 map (\<lambda>a. (AddrAdd (''/run/netns/ns1'', ''net1'') a, Done)) (ContainerIps req0)))"
proof -
  have a: "(AddrAdd (''/run/netns/ns1'', ''net1'') ''10.0.0.6/24'',
            Failed (LibError ''operation not permitted''))
       \<in> set (snd (snd (configureSriovNamespace
            (with_loops (logged_net (sim [ns1] [''10.0.0.6/24''])))
            req0 (''host'', ''eth0'') (moved0, []))))"
    by (simp add: sim_configure_address_fails)
  have b: "(RouteAdd (''/run/netns/ns1'', ''net1'') ''default via 10.0.0.1'',
            Failed (LibError ''operation not permitted''))
       \<in> set (snd (snd (configureSriovNamespace
            (with_loops (logged_net (sim [ns1] [''default via 10.0.0.1''])))
            req0 (''host'', ''eth0'') (moved0, []))))"
    by (simp add: sim_configure_route_fails)
  from a b sim_configure_address_fails sim_configure_route_fails
    entries_in_list_order [OF sim_configure_address_fails]
    entries_in_list_order [OF sim_configure_route_fails]
  show ?thesis
    by (simp only: snd_conv) blast
qed

end
